theory Spec2Isabelle
  imports Complex_Main
begin

section \<open>Summarization engine: \<open>pipeline.py\<close>\<close>

text \<open>
  The retry loop of \<open>SummarizationPipeline.generate_summary\<close>. Python floats that are only
  stored and compared (scores, the threshold) are real numbers here; the exceptions of the
  source are values of \<open>pipeline_error\<close>. The three model backends are the outside world:
  \<open>generate_out E m k\<close> is what the backend \<open>m\<close> answers to the \<open>k\<close>-th call it receives
  during the request (\<open>None\<close>: the generator raised, and every generator of the source
  wraps whatever it raises in \<open>ModelError\<close>). \<open>scorer E\<close> is the bound method
  \<open>_calculate_semantic_similarity\<close>, which never raises. A warning is kept as the data
  its message is formatted from.
\<close>

datatype pipeline_error =
    ModelError
  | SemanticThresholdError int real real
  | RuntimeError
  | TypeError
  | ValidationError

datatype warning =
    BelowThreshold int real real
  | FallbackToLocal string
  | LocalFallbackFailed

record SummarizationRequest =
  text_blob :: string
  semantic_threshold :: real
  ai_model :: string
  retry_attempts :: "int option"
  request_id :: "string option"

record SummarizationResponse =
  refined_text :: string
  semantic_score :: real
  response_request_id :: string
  original_length :: nat
  summary_length :: nat
  compression_ratio :: real
  model_used :: string
  retry_count :: int
  status :: string
  warnings :: "warning list"

record backend_call =
  call_model :: string
  call_result :: "string option"

record environment =
  generate_out :: "string \<Rightarrow> nat \<Rightarrow> string option"
  scorer :: "string \<Rightarrow> string \<Rightarrow> real"

text \<open>
  The local variables of \<open>generate_summary\<close>, and \<open>backend_calls\<close>: the invocations of
  \<open>_generate_with_model\<close> made so far, in order, each with the model asked and what came
  back.
\<close>

record loop_state =
  attempts :: int
  best_summary :: string
  best_score :: real
  model_used_var :: string
  warnings_var :: "warning list"
  backend_calls :: "backend_call list"

datatype step = Break loop_state | Continue loop_state | Raise pipeline_error "backend_call list"

definition calls_to :: "string \<Rightarrow> backend_call list \<Rightarrow> nat" where
  "calls_to m cs = length (filter (\<lambda>c. call_model c = m) cs)"

text \<open>\<open>_generate_with_model\<close>: dispatch on the model name; an unknown name raises \<open>ModelError\<close>.\<close>

definition generate ::
  "environment \<Rightarrow> string \<Rightarrow> backend_call list \<Rightarrow> pipeline_error + string" where
  "generate E m cs =
     (case generate_out E m (calls_to m cs) of None \<Rightarrow> Inl ModelError | Some s \<Rightarrow> Inr s)"

definition generate_with_model ::
  "environment \<Rightarrow> string \<Rightarrow> backend_call list \<Rightarrow> pipeline_error + string" where
  "generate_with_model E model_type cs =
     (if model_type = ''openai'' then generate E ''openai'' cs
      else if model_type = ''huggingface'' then generate E ''huggingface'' cs
      else if model_type = ''local'' then generate E ''local'' cs
      else Inl ModelError)"

definition returned :: "pipeline_error + string \<Rightarrow> string option" where
  "returned r = (case r of Inl e \<Rightarrow> None | Inr s \<Rightarrow> Some s)"

definition track_best :: "string \<Rightarrow> real \<Rightarrow> loop_state \<Rightarrow> loop_state" where
  "track_best summary sc st =
     (if sc > best_score st then st\<lparr>best_summary := summary, best_score := sc\<rparr> else st)"

text \<open>
  The inner \<open>try\<close> of the loop body (lines 140--178). The result says whether the
  \<open>break\<close> was taken. A \<open>ModelError\<close> is logged and swallowed.
\<close>

definition primary_attempt ::
  "environment \<Rightarrow> SummarizationRequest \<Rightarrow> int \<Rightarrow> loop_state \<Rightarrow> bool \<times> loop_state" where
  "primary_attempt E req n st =
     (let r = generate_with_model E (ai_model req) (backend_calls st);
          st1 = st\<lparr>backend_calls := backend_calls st @
                  [\<lparr>call_model = ai_model req, call_result = returned r\<rparr>]\<rparr>
      in case r of
           Inl e \<Rightarrow> (False, st1)
         | Inr summary \<Rightarrow>
             (let sc = scorer E (text_blob req) summary;
                  st2 = track_best summary sc st1
              in if sc \<ge> semantic_threshold req then (True, st2)
                 else if attempts st2 < n
                 then (False, st2\<lparr>warnings_var := warnings_var st2 @
                          [BelowThreshold (attempts st2) sc (semantic_threshold req)]\<rparr>)
                 else (False, st2)))"

text \<open>
  The fallback block (lines 180--209). It stands after the \<open>try\<close> statement, not inside its
  \<open>except\<close> clause: it runs whenever the first pass through the body did not \<open>break\<close>.
\<close>

definition fallback_attempt ::
  "environment \<Rightarrow> SummarizationRequest \<Rightarrow> loop_state \<Rightarrow> bool \<times> loop_state" where
  "fallback_attempt E req st =
     (if ai_model req \<noteq> ''local'' \<and> attempts st = 1 then
        (let r = generate_with_model E ''local'' (backend_calls st);
             st1 = st\<lparr>backend_calls := backend_calls st @
                     [\<lparr>call_model = ''local'', call_result = returned r\<rparr>]\<rparr>
         in case r of
              Inl e \<Rightarrow> (False, st1\<lparr>warnings_var := warnings_var st1 @ [LocalFallbackFailed]\<rparr>)
            | Inr summary \<Rightarrow>
                (let sc = scorer E (text_blob req) summary;
                     st2 = st1\<lparr>model_used_var := ''local'',
                               warnings_var := warnings_var st1 @ [FallbackToLocal (ai_model req)]\<rparr>;
                     st3 = track_best summary sc st2
                 in (sc \<ge> semantic_threshold req, st3)))
      else (False, st))"

text \<open>
  One pass through the body of the \<open>while\<close> loop. The last statement of the body is a bare
  \<open>raise\<close> outside any \<open>except\<close> clause: with no exception being handled (the caller
  awaits \<open>generate_summary\<close> from a \<open>try\<close> body, not from a handler) Python raises
  \<open>RuntimeError\<close> there.
\<close>

definition loop_body ::
  "environment \<Rightarrow> SummarizationRequest \<Rightarrow> int \<Rightarrow> loop_state \<Rightarrow> step" where
  "loop_body E req n st =
     (let st0 = st\<lparr>attempts := attempts st + 1\<rparr> in
      case primary_attempt E req n st0 of
        (True, st1) \<Rightarrow> Break st1
      | (False, st1) \<Rightarrow>
          (case fallback_attempt E req st1 of
             (True, st2) \<Rightarrow> Break st2
           | (False, st2) \<Rightarrow>
               if attempts st2 \<ge> n then Raise RuntimeError (backend_calls st2) else Continue st2))"

lemma track_best_attempts [simp]: "attempts (track_best s sc st) = attempts st"
  by (simp add: track_best_def)

lemma primary_attempt_attempts: "attempts (snd (primary_attempt E req n st)) = attempts st"
  by (simp add: primary_attempt_def Let_def split: sum.splits)

lemma fallback_attempt_attempts: "attempts (snd (fallback_attempt E req st)) = attempts st"
  by (simp add: fallback_attempt_def Let_def split: sum.splits)

lemma loop_body_Continue_attempts:
  "loop_body E req n st = Continue st' \<Longrightarrow> attempts st' = attempts st + 1 \<and> attempts st' < n"
proof -
  assume a: "loop_body E req n st = Continue st'"
  let ?st0 = "st\<lparr>attempts := attempts st + 1\<rparr>"
  obtain b1 st1 where p: "primary_attempt E req n ?st0 = (b1, st1)" by (cases "primary_attempt E req n ?st0")
  obtain b2 st2 where f: "fallback_attempt E req st1 = (b2, st2)" by (cases "fallback_attempt E req st1")
  from p have "attempts st1 = attempts st + 1"
    using primary_attempt_attempts [of E req n ?st0] by simp
  moreover from f have "attempts st2 = attempts st1"
    using fallback_attempt_attempts [of E req st1] by simp
  moreover from a p f have "st' = st2 \<and> \<not> attempts st2 \<ge> n"
    by (simp add: loop_body_def Let_def split: if_splits bool.splits)
  ultimately show ?thesis by simp
qed

function while_loop ::
  "environment \<Rightarrow> SummarizationRequest \<Rightarrow> int \<Rightarrow> loop_state \<Rightarrow>
     pipeline_error \<times> backend_call list + loop_state" where
  "while_loop E req n st =
     (if attempts st < n then
        (case loop_body E req n st of
           Break st' \<Rightarrow> Inr st'
         | Continue st' \<Rightarrow> while_loop E req n st'
         | Raise e cs \<Rightarrow> Inl (e, cs))
      else Inr st)"
  by pat_completeness auto
termination
  by (relation "measure (\<lambda>(E, req, n, st). nat (n - attempts st))")
     (auto dest: loop_body_Continue_attempts)

declare while_loop.simps [simp del]

definition initial_state :: "SummarizationRequest \<Rightarrow> loop_state" where
  "initial_state req =
     \<lparr>attempts = 0, best_summary = [], best_score = 0, model_used_var = ai_model req,
      warnings_var = [], backend_calls = []\<rparr>"

text \<open>
  The response built after the loop (lines 225--254); the processing time and the
  \<open>quality_metrics\<close> dictionary, which repeats two of the fields, are left out. The
  response model validates its fields: \<open>request_id\<close> must be a string, while the request
  may carry \<open>None\<close>, and \<open>semantic_score\<close> must lie in [0,1].
\<close>

definition build_response ::
  "SummarizationRequest \<Rightarrow> loop_state \<Rightarrow> pipeline_error + SummarizationResponse" where
  "build_response req st =
     (case request_id req of
        None \<Rightarrow> Inl ValidationError
      | Some rid \<Rightarrow>
          if best_score st < 0 \<or> best_score st > 1 then Inl ValidationError
          else Inr
            \<lparr>refined_text = best_summary st,
             semantic_score = best_score st,
             response_request_id = rid,
             original_length = length (text_blob req),
             summary_length = length (best_summary st),
             compression_ratio =
               (if length (text_blob req) > 0
                then real (length (best_summary st)) / real (length (text_blob req)) else 0),
             model_used = model_used_var st,
             retry_count = attempts st - 1,
             status = (if warnings_var st = [] then ''success'' else ''partial_success''),
             warnings = warnings_var st\<rparr>)"

text \<open>
  \<open>generate_summary\<close>: what the coroutine returns or raises, and the backend calls it
  made. \<open>retry_attempts\<close> is declared \<open>Optional[int]\<close>; comparing the counter with
  \<open>None\<close> raises \<open>TypeError\<close>. The outer \<open>except Exception\<close> records the error on the
  span and raises it again unchanged.
\<close>

definition generate_summary ::
  "environment \<Rightarrow> SummarizationRequest \<Rightarrow>
     (pipeline_error + SummarizationResponse) \<times> backend_call list" where
  "generate_summary E req =
     (case retry_attempts req of
        None \<Rightarrow> (Inl TypeError, [])
      | Some n \<Rightarrow>
          (case while_loop E req n (initial_state req) of
             Inl (e, cs) \<Rightarrow> (Inl e, cs)
           | Inr st \<Rightarrow>
               if best_score st < semantic_threshold req
               then (Inl (SemanticThresholdError (attempts st) (best_score st)
                            (semantic_threshold req)), backend_calls st)
               else (build_response req st, backend_calls st)))"


subsection \<open>Notions used to state the properties of the engine\<close>

text \<open>The backend calls made by a run of the loop, whether it returned or raised.\<close>

definition final_calls :: "pipeline_error \<times> backend_call list + loop_state \<Rightarrow> backend_call list" where
  "final_calls r = (case r of Inl (e, cs) \<Rightarrow> cs | Inr st \<Rightarrow> backend_calls st)"

text \<open>Every summary generated so far was scored at most \<open>b\<close>.\<close>

definition scores_tracked :: "environment \<Rightarrow> SummarizationRequest \<Rightarrow> backend_call list \<Rightarrow> real \<Rightarrow> bool" where
  "scores_tracked E req cs b =
     list_all (\<lambda>c. case call_result c of None \<Rightarrow> True
                   | Some s \<Rightarrow> scorer E (text_blob req) s \<le> b) cs"

text \<open>
  The positions, in the sequence of backend calls, of the calls to the local model: when
  the requested model is another one, these are the fallback attempts.
\<close>

definition fallback_positions :: "backend_call list \<Rightarrow> nat list" where
  "fallback_positions cs =
     map fst (filter (\<lambda>(i, c). call_model c = ''local'') (enumerate 0 cs))"

text \<open>The first two backend calls of a request whose first pass does not \<open>break\<close> at once.\<close>

definition first_call :: "environment \<Rightarrow> SummarizationRequest \<Rightarrow> backend_call" where
  "first_call E req =
     \<lparr>call_model = ai_model req,
      call_result = returned (generate_with_model E (ai_model req) [])\<rparr>"

definition second_call :: "environment \<Rightarrow> SummarizationRequest \<Rightarrow> backend_call" where
  "second_call E req =
     \<lparr>call_model = ''local'',
      call_result = returned (generate_with_model E ''local'' [first_call E req])\<rparr>"

text \<open>Concrete requests and backends, after the stubs of the repository's tests.\<close>

definition threshold_req :: SummarizationRequest where
  "threshold_req =
     \<lparr>text_blob = ''source text'', semantic_threshold = 8 / 10, ai_model = ''openai'',
      retry_attempts = Some 2, request_id = Some ''r1''\<rparr>"

definition poor_env :: environment where
  "poor_env =
     \<lparr>generate_out = (\<lambda>m k. if m = ''openai'' then Some ''Poor summary'' else None),
      scorer = (\<lambda>t s. 5 / 10)\<rparr>"

definition stub_req :: SummarizationRequest where
  "stub_req =
     \<lparr>text_blob = ''source text'', semantic_threshold = 8 / 10, ai_model = ''openai'',
      retry_attempts = Some 3, request_id = Some ''r2''\<rparr>"

definition stub_env :: environment where
  "stub_env =
     \<lparr>generate_out = (\<lambda>m k.
        if m = ''local'' then None
        else if k = 0 then Some ''first'' else if k = 1 then Some ''second'' else Some ''third''),
      scorer = (\<lambda>t s.
        if s = ''first'' then 70 / 100 else if s = ''second'' then 75 / 100 else 92 / 100)\<rparr>"

text \<open>The fields of a response that the tests assert: text, retry count, status, number of warnings.\<close>

definition outcome :: "(pipeline_error + SummarizationResponse) \<times> backend_call list \<Rightarrow>
    pipeline_error + string \<times> int \<times> string \<times> nat" where
  "outcome r = map_sum id (\<lambda>x. (refined_text x, retry_count x, status x, length (warnings x))) (fst r)"

text \<open>
  The fallback policy in the specification's words: one fallback attempt, immediately after
  the first failure of the primary backend, and none without such a failure.
\<close>

definition primary_failure_positions :: "backend_call list \<Rightarrow> nat list" where
  "primary_failure_positions cs =
     map fst (filter (\<lambda>(i, c). call_model c \<noteq> ''local'' \<and> call_result c = None)
       (enumerate 0 cs))"

definition fallback_after_first_primary_failure :: "backend_call list \<Rightarrow> bool" where
  "fallback_after_first_primary_failure cs =
     (fallback_positions cs =
        (case primary_failure_positions cs of [] \<Rightarrow> [] | i # _ \<Rightarrow> [Suc i]))"

definition late_failure_env :: environment where
  "late_failure_env =
     \<lparr>generate_out = (\<lambda>m k.
        if m = ''local'' then Some ''local text''
        else if k = 0 then Some ''first'' else if k = 1 then None else Some ''third''),
      scorer = (\<lambda>t s.
        if s = ''first'' then 70 / 100 else if s = ''local text'' then 60 / 100 else 92 / 100)\<rparr>"

definition failing_primary_env :: environment where
  "failing_primary_env =
     \<lparr>generate_out = (\<lambda>m k. if m = ''local'' then Some ''Local fallback summary.'' else None),
      scorer = (\<lambda>t s. 85 / 100)\<rparr>"

section \<open>Rate limiter: \<open>InMemoryRateLimiter\<close> in \<open>main.py\<close>\<close>

text \<open>
  The limiter keeps, for each client key, the times of the requests it admitted.
  \<open>time.time()\<close> is read once per check; the reading is the argument \<open>now\<close>, a real number.
  \<open>is_allowed\<close> returns its answer and the limiter after the check.
\<close>

record InMemoryRateLimiter =
  calls :: int
  period :: int
  requests :: "string \<rightharpoonup> real list"

definition is_allowed :: "InMemoryRateLimiter \<Rightarrow> string \<Rightarrow> real \<Rightarrow> bool \<times> InMemoryRateLimiter" where
  "is_allowed rl key now =
     (let rl1 = (if key \<notin> dom (requests rl) then rl\<lparr>requests := (requests rl)(key \<mapsto> [])\<rparr> else rl);
          kept = filter (\<lambda>req_time. now - req_time < real_of_int (period rl1))
                   (the (requests rl1 key));
          rl2 = rl1\<lparr>requests := (requests rl1)(key \<mapsto> kept)\<rparr>
      in if int (length kept) \<ge> calls rl2 then (False, rl2)
         else (True, rl2\<lparr>requests := (requests rl2)(key \<mapsto> kept @ [now])\<rparr>))"

text \<open>The admitted requests on record for a key, and a run of checks at the given times.\<close>

definition history :: "InMemoryRateLimiter \<Rightarrow> string \<Rightarrow> real list" where
  "history rl key = (case requests rl key of None \<Rightarrow> [] | Some ts \<Rightarrow> ts)"



section \<open>Tenant-scoped data gateway: \<open>repository.py\<close>\<close>

text \<open>
  The database is a set of schemas; a schema that holds a \<open>contexts\<close> table maps to that
  table, and a table maps the primary key \<open>id\<close> to its row. The table is the one
  \<open>db_models.py\<close> of the service declares: \<open>title\<close> is a \<open>VARCHAR(255)\<close>, \<open>version\<close> a
  32-bit \<open>INTEGER\<close>. Timestamps (\<open>NOW()\<close>, the \<open>timestamptz\<close> columns) are integers,
  microseconds on PostgreSQL's clock. The column \<open>id\<close> is named \<open>ctx_id\<close> here.

  A Python string whose characters matter (the tenant id, a title) is the list of its
  Unicode code points, a \<open>pystr\<close>; \<open>py\<close> writes an ASCII literal as one. The other
  strings are opaque: texts that the driver can encode and the server stores.
\<close>

type_synonym timestamp = int

type_synonym pystr = "nat list"

definition py :: "string \<Rightarrow> pystr" where
  "py s = map of_char s"

record context_row =
  ctx_id :: string
  context_data :: string
  context_type :: string
  title :: "pystr option"
  description :: "string option"
  tags :: "string list"
  tenant_id :: string
  user_id :: "string option"
  created_at :: timestamp
  updated_at :: timestamp
  expires_at :: "timestamp option"
  version :: int

type_synonym contexts_table = "string \<rightharpoonup> context_row"

record database =
  reachable :: bool
  schemas :: "pystr \<rightharpoonup> contexts_table"

datatype db_error = DatabaseError

text \<open>
  A Python value handed to \<open>json.dumps\<close> is represented by its serialisation.
  \<open>Unserializable\<close> stands for a value on which \<open>json.dumps\<close> raises, and for one whose
  serialisation the server refuses as JSON when the parameter is bound (\<open>NaN\<close>): both end
  in \<open>DatabaseError\<close> before any row is looked at.
\<close>

datatype py_value = Serializable string | Unserializable

text \<open>
  The dictionary \<open>update_data\<close>: a key that is missing and a key whose value is \<open>None\<close>
  are both \<open>None\<close> here, as \<open>dict.get\<close> and the test on \<open>context_data\<close> make them.
\<close>

record update_data =
  upd_context_data :: "py_value option"
  upd_title :: "pystr option"
  upd_description :: "string option"
  upd_tags :: "string list option"
  upd_expires_at :: "timestamp option"

definition json_dumps :: "py_value \<Rightarrow> string option" where
  "json_dumps v = (case v of Serializable s \<Rightarrow> Some s | Unserializable \<Rightarrow> None)"

text \<open>
  \<open>TenantAwareDB.set_search_path\<close> rejects a tenant id that is empty or that, with hyphens
  and underscores removed, is not alphanumeric (\<open>str.isalnum\<close> is false on the empty
  string). Among the ASCII characters the alphanumeric ones are the letters and digits;
  beyond ASCII, \<open>str.isalnum\<close> follows the Unicode character database, which is the
  parameter \<open>U\<close>: \<open>U c\<close> says whether the code point \<open>c\<close> is alphanumeric.
\<close>

definition isalnum_char :: "(nat \<Rightarrow> bool) \<Rightarrow> nat \<Rightarrow> bool" where
  "isalnum_char U c =
     (if c < 128 then (48 \<le> c \<and> c \<le> 57) \<or> (65 \<le> c \<and> c \<le> 90) \<or> (97 \<le> c \<and> c \<le> 122)
      else U c)"

definition valid_tenant_id :: "(nat \<Rightarrow> bool) \<Rightarrow> pystr \<Rightarrow> bool" where
  "valid_tenant_id U t =
     (let stripped = filter (\<lambda>c. c \<noteq> 95) (filter (\<lambda>c. c \<noteq> 45) t)
      in t \<noteq> [] \<and> stripped \<noteq> [] \<and> list_all (isalnum_char U) stripped)"

text \<open>
  \<open>get_connection\<close>: connect, then \<open>SET search_path TO tenant_<id>, public\<close>, the tenant
  id pasted into the statement. Any failure leaves as \<open>DatabaseError\<close>. PostgreSQL reads
  the schema name as an unquoted identifier: a hyphen (code point 45) in it is a syntax
  error, its ASCII letters are folded to lower case, and it is cut to the longest run of
  whole characters that fits 63 bytes; the encoding of the database is taken to be UTF-8.
  The result is the search path in force.
\<close>

definition ascii_lower :: "nat \<Rightarrow> nat" where
  "ascii_lower c = (if 65 \<le> c \<and> c \<le> 90 then c + 32 else c)"

definition utf8_length :: "nat \<Rightarrow> nat" where
  "utf8_length c = (if c < 128 then 1 else if c < 2048 then 2 else if c < 65536 then 3 else 4)"

fun clip_bytes :: "nat \<Rightarrow> pystr \<Rightarrow> pystr" where
  "clip_bytes n [] = []"
| "clip_bytes n (c # cs) =
     (if utf8_length c \<le> n then c # clip_bytes (n - utf8_length c) cs else [])"

definition schema_name :: "pystr \<Rightarrow> pystr" where
  "schema_name tid = clip_bytes 63 (map ascii_lower (py ''tenant_'' @ tid))"

definition get_connection :: "(nat \<Rightarrow> bool) \<Rightarrow> database \<Rightarrow> pystr \<Rightarrow> db_error + pystr list" where
  "get_connection U db tid =
     (if \<not> reachable db then Inl DatabaseError
      else if \<not> valid_tenant_id U tid then Inl DatabaseError
      else if 45 \<in> set tid then Inl DatabaseError
      else Inr [schema_name tid, py ''public''])"

text \<open>
  The statements name the table \<open>contexts\<close> unqualified: it is the table of the first
  schema of the search path that has one; with none, the statement fails.
\<close>

fun resolve_contexts :: "database \<Rightarrow> pystr list \<Rightarrow> pystr option" where
  "resolve_contexts db [] = None"
| "resolve_contexts db (s # path) =
     (case schemas db s of Some t \<Rightarrow> Some s | None \<Rightarrow> resolve_contexts db path)"

definition live :: "timestamp \<Rightarrow> context_row \<Rightarrow> bool" where
  "live now r = (case expires_at r of None \<Rightarrow> True | Some e \<Rightarrow> e > now)"

definition coalesce :: "'a option \<Rightarrow> 'a \<Rightarrow> 'a" where
  "coalesce p old = (case p of None \<Rightarrow> old | Some v \<Rightarrow> v)"

definition coalesce_opt :: "'a option \<Rightarrow> 'a option \<Rightarrow> 'a option" where
  "coalesce_opt p old = (case p of None \<Rightarrow> old | Some v \<Rightarrow> Some v)"

text \<open>
  Coercing a string to \<open>VARCHAR(n)\<close>, \<open>n\<close> counted in characters: a longer string is an
  error, unless what exceeds the length is spaces only, which are cut off.
\<close>

definition varchar :: "nat \<Rightarrow> pystr \<Rightarrow> pystr option" where
  "varchar n s =
     (if length s \<le> n then Some s
      else if list_all (\<lambda>c. c = 32) (drop n s) then Some (take n s)
      else None)"

text \<open>
  A string bound to a text parameter: the driver encodes it as UTF-8, which fails on a
  surrogate code point, and the server refuses a NUL character.
\<close>

definition text_param :: "pystr \<Rightarrow> bool" where
  "text_param s = list_all (\<lambda>c. c \<noteq> 0 \<and> \<not> (55296 \<le> c \<and> c \<le> 57343)) s"

text \<open>
  The title bound to \<open>$3\<close>, when there is one, is accepted: it can be bound, and it
  fits the column \<open>VARCHAR(255)\<close>. Every call opens a connection of its own, so the
  statement is planned with the values of its parameters, and the coercion of a title
  that is not \<open>NULL\<close> to the column's type is evaluated then.
\<close>

definition title_accepted :: "pystr option \<Rightarrow> bool" where
  "title_accepted p3 =
     (case p3 of None \<Rightarrow> True | Some t \<Rightarrow> text_param t \<and> varchar 255 t \<noteq> None)"

text \<open>
  The \<open>UPDATE\<close> statement of \<open>update_context\<close> on one table: the number of rows it
  affected and the table afterwards, or the failure of the statement. A title that is not
  accepted fails the statement whether or not a row is selected; \<open>version + 1\<close> is
  computed, and can fail, only for a row that the \<open>WHERE\<close> clause selects.
\<close>

definition sql_update ::
  "timestamp \<Rightarrow> string \<Rightarrow> string option \<Rightarrow> pystr option \<Rightarrow> string option \<Rightarrow>
     string list option \<Rightarrow> timestamp option \<Rightarrow> contexts_table \<Rightarrow> db_error + nat \<times> contexts_table" where
  "sql_update now p1 p2 p3 p4 p5 p6 tbl =
     (if \<not> title_accepted p3 then Inl DatabaseError
      else
        (case tbl p1 of
           None \<Rightarrow> Inr (0, tbl)
         | Some r \<Rightarrow>
             if live now r then
               (if version r + 1 > 2147483647 then Inl DatabaseError
                else Inr (1, tbl(p1 \<mapsto> r\<lparr>context_data := coalesce p2 (context_data r),
                                           title := coalesce_opt (Option.bind p3 (varchar 255)) (title r),
                                           description := coalesce_opt p4 (description r),
                                           tags := coalesce p5 (tags r),
                                           updated_at := now,
                                           expires_at := coalesce_opt p6 (expires_at r),
                                           version := version r + 1\<rparr>)))
             else Inr (0, tbl)))"

text \<open>The \<open>UPDATE\<close> statement of \<open>delete_context\<close>.\<close>

definition sql_soft_delete :: "timestamp \<Rightarrow> string \<Rightarrow> contexts_table \<Rightarrow> nat \<times> contexts_table" where
  "sql_soft_delete now p1 tbl =
     (case tbl p1 of
        None \<Rightarrow> (0, tbl)
      | Some r \<Rightarrow>
          if live now r
          then (1, tbl(p1 \<mapsto> r\<lparr>expires_at := Some now, updated_at := now\<rparr>))
          else (0, tbl))"

text \<open>
  \<open>update_context\<close> and \<open>delete_context\<close>: what the call returns or raises, and the
  database afterwards. \<open>now\<close> is the value of \<open>NOW()\<close> in the statement's transaction,
  \<open>U\<close> the Unicode table that the check of the tenant id consults.
\<close>

definition update_context ::
  "(nat \<Rightarrow> bool) \<Rightarrow> database \<Rightarrow> timestamp \<Rightarrow> pystr \<Rightarrow> string \<Rightarrow> update_data \<Rightarrow>
     (db_error + bool) \<times> database" where
  "update_context U db now tid context_id u =
     (case get_connection U db tid of
        Inl e \<Rightarrow> (Inl DatabaseError, db)
      | Inr path \<Rightarrow>
          (case (case upd_context_data u of
                   None \<Rightarrow> Some None
                 | Some v \<Rightarrow> (case json_dumps v of None \<Rightarrow> None | Some s \<Rightarrow> Some (Some s))) of
             None \<Rightarrow> (Inl DatabaseError, db)
           | Some context_data_json \<Rightarrow>
               (case resolve_contexts db path of
                  None \<Rightarrow> (Inl DatabaseError, db)
                | Some s \<Rightarrow>
                    (case sql_update now context_id context_data_json (upd_title u)
                            (upd_description u) (upd_tags u) (upd_expires_at u)
                            (the (schemas db s)) of
                       Inl e \<Rightarrow> (Inl DatabaseError, db)
                     | Inr (rows_affected, tbl) \<Rightarrow>
                         (Inr (rows_affected > 0), db\<lparr>schemas := (schemas db)(s \<mapsto> tbl)\<rparr>)))))"

definition delete_context ::
  "(nat \<Rightarrow> bool) \<Rightarrow> database \<Rightarrow> timestamp \<Rightarrow> pystr \<Rightarrow> string \<Rightarrow>
     (db_error + bool) \<times> database" where
  "delete_context U db now tid context_id =
     (case get_connection U db tid of
        Inl e \<Rightarrow> (Inl DatabaseError, db)
      | Inr path \<Rightarrow>
          (case resolve_contexts db path of
             None \<Rightarrow> (Inl DatabaseError, db)
           | Some s \<Rightarrow>
               (case sql_soft_delete now context_id (the (schemas db s)) of
                  (rows_affected, tbl) \<Rightarrow>
                    (Inr (rows_affected > 0), db\<lparr>schemas := (schemas db)(s \<mapsto> tbl)\<rparr>))))"

text \<open>
  The row a tenant's statements see under an id, and the row stored under an id in a
  given schema.
\<close>

definition tenant_row ::
  "(nat \<Rightarrow> bool) \<Rightarrow> database \<Rightarrow> pystr \<Rightarrow> string \<Rightarrow> context_row option" where
  "tenant_row U db tid context_id =
     (case get_connection U db tid of
        Inl e \<Rightarrow> None
      | Inr path \<Rightarrow>
          (case resolve_contexts db path of
             None \<Rightarrow> None
           | Some s \<Rightarrow> the (schemas db s) context_id))"

definition stored_row :: "database \<Rightarrow> pystr \<Rightarrow> string \<Rightarrow> context_row option" where
  "stored_row db s context_id =
     (case schemas db s of None \<Rightarrow> None | Some tbl \<Rightarrow> tbl context_id)"

definition usable :: "(nat \<Rightarrow> bool) \<Rightarrow> database \<Rightarrow> pystr \<Rightarrow> bool" where
  "usable U db tid =
     (case get_connection U db tid of
        Inl e \<Rightarrow> False
      | Inr path \<Rightarrow> resolve_contexts db path \<noteq> None)"

text \<open>The payload of the update, when there is one, can be serialised.\<close>

definition dumps_ok :: "update_data \<Rightarrow> bool" where
  "dumps_ok u = (case upd_context_data u of None \<Rightarrow> True | Some v \<Rightarrow> json_dumps v \<noteq> None)"

text \<open>The new title of the update, when there is one, is accepted.\<close>

definition title_fits :: "update_data \<Rightarrow> bool" where
  "title_fits u = title_accepted (upd_title u)"

text \<open>The fields that no update may touch.\<close>

definition identity_fields ::
  "context_row \<Rightarrow> string \<times> string \<times> string option \<times> string \<times> timestamp" where
  "identity_fields r = (ctx_id r, tenant_id r, user_id r, context_type r, created_at r)"

text \<open>
  A database with one tenant and one record, for the concrete cases, and a Unicode table
  that knows the letters of Latin-1.
\<close>

definition latin1 :: "nat \<Rightarrow> bool" where
  "latin1 c = (192 \<le> c \<and> c \<le> 255 \<and> c \<noteq> 215 \<and> c \<noteq> 247)"


definition sample_row :: context_row where
  "sample_row =
     \<lparr>ctx_id = ''ctx_1'', context_data = ''{}'', context_type = ''note'', title = Some (py ''t''),
      description = None, tags = [], tenant_id = ''acme'', user_id = Some ''u1'',
      created_at = 100, updated_at = 100, expires_at = None, version = 1\<rparr>"

definition sample_db :: database where
  "sample_db =
     \<lparr>reachable = True,
      schemas = [py ''tenant_acme'' \<mapsto> [''ctx_1'' \<mapsto> sample_row]]\<rparr>"

definition no_fields :: update_data where
  "no_fields =
     \<lparr>upd_context_data = None, upd_title = None, upd_description = None, upd_tags = None,
      upd_expires_at = None\<rparr>"

definition retitle :: update_data where
  "retitle = no_fields\<lparr>upd_title := Some (py ''new title''), upd_tags := Some [''a'']\<rparr>"

section \<open>JWKS key cache and token validator: \<open>auth.py\<close>\<close>

text \<open>
  A JWK is a JSON object; only its string-valued members matter here, so it is a map from
  member names to strings (a \<open>kid\<close> that is not a string never equals the string asked
  for, like a missing one). A member of a \<open>keys\<close> array is such an object or some other
  JSON value. What the JWKS endpoint answers to a GET is a value of \<open>http_result\<close>: a
  transport error, an error status, a body that is not JSON, a body whose bytes cannot be
  decoded, a JSON object whose \<open>keys\<close> member is missing, is not an array, or is an
  array, or a JSON value that is not an object. The endpoint is a function from the number
  of requests it has served to its next answer, and \<open>fetches\<close> counts the requests a
  manager has sent.
\<close>

type_synonym jwk = "string \<rightharpoonup> string"

datatype jwks_member = KeyObject jwk | NotAnObject

datatype jwks_document = NoKeysField | KeysNotAList | Keys "jwks_member list"

text \<open>
  A JSON body that is not an object: an array or a string in which \<open>"keys"\<close> does not
  occur, one in which it occurs, or a number, a boolean or \<open>null\<close>.
\<close>

datatype other_json = SequenceWithoutKeys | SequenceWithKeys | NotASequence

datatype http_result =
    RequestError | HTTPStatusError nat | InvalidJSON | UndecodableBody
  | Body jwks_document | OtherBody other_json

datatype reason =
    MissingKid | UnknownKid string | InvalidPublicKey | TokenExpired | ClaimsInvalid
  | ValidationFailed | ServiceUnavailable | MissingClaim string | InvalidSubject
  | MissingTenant | TenantMismatch | InvalidScopes | MissingScopes | TooOld

datatype auth_error =
    JWKSError | JWTValidationError reason
  | PyTypeError | PyAttributeError | PyUnicodeDecodeError

record JWKSManager =
  cache_ttl :: int
  keys_cache :: "jwks_member list option"
  cache_timestamp :: real
  fetches :: nat

text \<open>
  \<open>get_jwks\<close>: the cache is used when it is not empty and younger than the TTL, unless a
  refresh is forced; every other path sends one request. A failure of the request, a body
  that is not JSON and a document without a \<open>keys\<close> array are raised as \<open>JWKSError\<close>.
  The source catches \<open>JSONDecodeError\<close> only, so bytes that cannot be decoded leave as
  \<open>UnicodeDecodeError\<close>. On a body that is not an object, the test \<open>"keys" not in
  jwks_data\<close> is a membership test on an array or a string, which raises \<open>JWKSError\<close> when
  it succeeds and otherwise lets \<open>jwks_data["keys"]\<close> raise \<open>TypeError\<close>; on a number,
  a boolean or \<open>null\<close> the test itself raises \<open>TypeError\<close>. The cache is written only
  when a \<open>keys\<close> array was found. The URL of the endpoint is configuration and is
  taken to be one the client can request.
\<close>

definition get_jwks ::
  "(nat \<Rightarrow> http_result) \<Rightarrow> JWKSManager \<Rightarrow> real \<Rightarrow> bool \<Rightarrow>
     (auth_error + jwks_member list) \<times> JWKSManager" where
  "get_jwks endpoint m now force_refresh =
     (if \<not> force_refresh \<and> keys_cache m \<noteq> None \<and>
         now - cache_timestamp m < real_of_int (cache_ttl m)
      then (Inr (the (keys_cache m)), m)
      else
        (let m1 = m\<lparr>fetches := fetches m + 1\<rparr> in
         case endpoint (fetches m) of
           RequestError \<Rightarrow> (Inl JWKSError, m1)
         | HTTPStatusError code \<Rightarrow> (Inl JWKSError, m1)
         | InvalidJSON \<Rightarrow> (Inl JWKSError, m1)
         | UndecodableBody \<Rightarrow> (Inl PyUnicodeDecodeError, m1)
         | Body NoKeysField \<Rightarrow> (Inl JWKSError, m1)
         | Body KeysNotAList \<Rightarrow> (Inl JWKSError, m1)
         | Body (Keys ks) \<Rightarrow> (Inr ks, m1\<lparr>keys_cache := Some ks, cache_timestamp := now\<rparr>)
         | OtherBody SequenceWithoutKeys \<Rightarrow> (Inl JWKSError, m1)
         | OtherBody SequenceWithKeys \<Rightarrow> (Inl PyTypeError, m1)
         | OtherBody NotASequence \<Rightarrow> (Inl PyTypeError, m1)))"

text \<open>
  The loop \<open>for key in jwks["keys"]\<close>: the first key whose \<open>kid\<close> member equals the one
  asked for; \<open>key.get\<close> raises \<open>AttributeError\<close> on a member that is not an object, if
  the loop gets that far. \<open>find_kid\<close> is the same search in a list of key objects.
\<close>

fun search_keys :: "string \<Rightarrow> jwks_member list \<Rightarrow> auth_error + jwk option" where
  "search_keys kid [] = Inr None"
| "search_keys kid (NotAnObject # ms) = Inl PyAttributeError"
| "search_keys kid (KeyObject key # ms) =
     (if key ''kid'' = Some kid then Inr (Some key) else search_keys kid ms)"

definition find_kid :: "string \<Rightarrow> jwk list \<Rightarrow> jwk option" where
  "find_kid kid ks = find (\<lambda>key. key ''kid'' = Some kid) ks"

text \<open>
  \<open>get_key_by_kid\<close>; \<open>now1\<close> and \<open>now2\<close> are the readings of the clock in its two calls of
  \<open>get_jwks\<close>.
\<close>

definition get_key_by_kid ::
  "(nat \<Rightarrow> http_result) \<Rightarrow> JWKSManager \<Rightarrow> real \<Rightarrow> real \<Rightarrow> string \<Rightarrow>
     (auth_error + jwk option) \<times> JWKSManager" where
  "get_key_by_kid endpoint m now1 now2 kid =
     (case get_jwks endpoint m now1 False of
        (Inl e, m1) \<Rightarrow> (Inl e, m1)
      | (Inr jwks, m1) \<Rightarrow>
          (case search_keys kid jwks of
             Inl e \<Rightarrow> (Inl e, m1)
           | Inr (Some key) \<Rightarrow> (Inr (Some key), m1)
           | Inr None \<Rightarrow>
               (case get_jwks endpoint m1 now2 True of
                  (Inl e, m2) \<Rightarrow> (Inl e, m2)
                | (Inr jwks2, m2) \<Rightarrow> (search_keys kid jwks2, m2))))"

text \<open>
  Answers and caches on which the lookup raises nothing but \<open>JWKSError\<close>: every member
  of a \<open>keys\<close> array is an object, and a body that is JSON is an object or a sequence
  without \<open>"keys"\<close>.
\<close>

fun is_object :: "jwks_member \<Rightarrow> bool" where
  "is_object (KeyObject key) = True"
| "is_object NotAnObject = False"

fun well_formed :: "http_result \<Rightarrow> bool" where
  "well_formed (Body (Keys ms)) = list_all is_object ms"
| "well_formed (OtherBody SequenceWithKeys) = False"
| "well_formed (OtherBody NotASequence) = False"
| "well_formed UndecodableBody = False"
| "well_formed r = True"

definition well_formed_cache :: "JWKSManager \<Rightarrow> bool" where
  "well_formed_cache m = (case keys_cache m of None \<Rightarrow> True | Some ms \<Rightarrow> list_all is_object ms)"

subsection \<open>The validator\<close>

text \<open>
  The claims of a token are a JSON object. \<open>truthy\<close> is Python's truth value of a JSON
  value; Python's \<open>bool\<close> is a kind of \<open>int\<close>, so \<open>True\<close> counts as the number 1.
\<close>

datatype json =
    JNull | JBool bool | JNum real | JStr string | JList "json list"
  | JObject "(string \<times> json) list"

fun truthy :: "json \<Rightarrow> bool" where
  "truthy JNull = False"
| "truthy (JBool b) = b"
| "truthy (JNum x) = (x \<noteq> 0)"
| "truthy (JStr s) = (s \<noteq> [])"
| "truthy (JList l) = (l \<noteq> [])"
| "truthy (JObject kvs) = (kvs \<noteq> [])"

fun as_number :: "json \<Rightarrow> real option" where
  "as_number (JNum x) = Some x"
| "as_number (JBool b) = Some (if b then 1 else 0)"
| "as_number v = None"

fun is_str :: "json \<Rightarrow> bool" where
  "is_str (JStr s) = True"
| "is_str v = False"

fun hashable :: "json \<Rightarrow> bool" where
  "hashable (JList l) = False"
| "hashable (JObject kvs) = False"
| "hashable v = True"

type_synonym claims = "string \<rightharpoonup> json"

text \<open>
  \<open>_validate_payload\<close>: \<open>None\<close> when every check passes, else the exception. \<open>now\<close> is
  the reading of the clock for the age check. Building a set from a scopes list with an
  unhashable member, and subtracting an \<open>iat\<close> that is not a number, raise \<open>TypeError\<close>.
\<close>

definition validate_payload ::
  "claims \<Rightarrow> string option \<Rightarrow> string list option \<Rightarrow> real \<Rightarrow> auth_error option" where
  "validate_payload payload required_tenant_id required_scopes now =
     (case find (\<lambda>claim. payload claim = None) [''sub'', ''iat'', ''exp''] of
        Some claim \<Rightarrow> Some (JWTValidationError (MissingClaim claim))
      | None \<Rightarrow>
     (case payload ''sub'' of
        None \<Rightarrow> Some (JWTValidationError InvalidSubject)
      | Some subject \<Rightarrow>
     if \<not> truthy subject \<or> \<not> is_str subject then Some (JWTValidationError InvalidSubject)
     else
     (case (case required_tenant_id of
              None \<Rightarrow> None
            | Some rt \<Rightarrow>
                if rt = [] then None
                else (case payload ''tenant_id'' of
                        None \<Rightarrow> Some (JWTValidationError MissingTenant)
                      | Some token_tenant \<Rightarrow>
                          if \<not> truthy token_tenant then Some (JWTValidationError MissingTenant)
                          else if token_tenant \<noteq> JStr rt then Some (JWTValidationError TenantMismatch)
                          else None)) of
        Some e \<Rightarrow> Some e
      | None \<Rightarrow>
     (case (case required_scopes of
              None \<Rightarrow> None
            | Some rs \<Rightarrow>
                if rs = [] then None
                else (case (case payload ''scopes'' of None \<Rightarrow> JList [] | Some v \<Rightarrow> v) of
                        JList token_scopes \<Rightarrow>
                          if \<not> list_all hashable token_scopes then Some PyTypeError
                          else if filter (\<lambda>s. JStr s \<notin> set token_scopes) rs \<noteq> []
                          then Some (JWTValidationError MissingScopes)
                          else None
                      | _ \<Rightarrow> Some (JWTValidationError InvalidScopes))) of
        Some e \<Rightarrow> Some e
      | None \<Rightarrow>
     (case payload ''iat'' of
        None \<Rightarrow> None
      | Some iat \<Rightarrow>
          if \<not> truthy iat then None
          else (case as_number iat of
                  None \<Rightarrow> Some PyTypeError
                | Some t \<Rightarrow>
                    if now - t > 24 * 3600 then Some (JWTValidationError TooOld) else None))))))"

text \<open>
  The JOSE library (\<open>python-jose\<close>) is not part of the repository; the three functions
  \<open>validate_token\<close> calls are parameters. \<open>get_unverified_header\<close> gives the header of the
  token, or \<open>None\<close> where the library raises \<open>JWTError\<close>; \<open>construct\<close> gives the key
  object for a JWK, or \<open>None\<close> where it raises; \<open>decode\<close>, called with the token, the key
  and the list \<open>algorithms\<close> (the options of the source are fixed), gives the claims or one
  of the library's three exceptions.
\<close>

datatype jose_error = ExpiredSignatureError | JWTClaimsError | JWTError

record 'k jose =
  get_unverified_header :: "string \<Rightarrow> (string \<rightharpoonup> string) option"
  construct :: "jwk \<Rightarrow> 'k option"
  decode :: "string \<Rightarrow> 'k \<Rightarrow> string list \<Rightarrow> jose_error + claims"

text \<open>
  \<open>validate_token\<close>. \<open>now3\<close> is the clock reading of \<open>_validate_payload\<close>. An empty
  \<open>kid\<close> and an empty JWK object are false in Python, like a missing one. Of the
  exceptions of the key lookup the \<open>except\<close> clauses catch \<open>JWKSError\<close>; the others
  leave \<open>validate_token\<close> as they are, for the caller's \<open>except Exception\<close>.
\<close>

definition validate_token ::
  "'k jose \<Rightarrow> (nat \<Rightarrow> http_result) \<Rightarrow> JWKSManager \<Rightarrow> real \<Rightarrow> real \<Rightarrow> real \<Rightarrow>
     string \<Rightarrow> string option \<Rightarrow> string list option \<Rightarrow> (auth_error + claims) \<times> JWKSManager" where
  "validate_token lib endpoint m now1 now2 now3 token required_tenant_id required_scopes =
     (case get_unverified_header lib token of
        None \<Rightarrow> (Inl (JWTValidationError ValidationFailed), m)
      | Some unverified_header \<Rightarrow>
     (case unverified_header ''kid'' of
        None \<Rightarrow> (Inl (JWTValidationError MissingKid), m)
      | Some kid \<Rightarrow>
     if kid = [] then (Inl (JWTValidationError MissingKid), m)
     else
     (case get_key_by_kid endpoint m now1 now2 kid of
        (Inl e, m') \<Rightarrow>
          (Inl (case e of JWKSError \<Rightarrow> JWTValidationError ServiceUnavailable | _ \<Rightarrow> e), m')
      | (Inr None, m') \<Rightarrow> (Inl (JWTValidationError (UnknownKid kid)), m')
      | (Inr (Some jwk_data), m') \<Rightarrow>
     if jwk_data = Map.empty then (Inl (JWTValidationError (UnknownKid kid)), m')
     else
     (case construct lib jwk_data of
        None \<Rightarrow> (Inl (JWTValidationError InvalidPublicKey), m')
      | Some public_key \<Rightarrow>
     (case decode lib token public_key [''RS256'', ''ES256''] of
        Inl ExpiredSignatureError \<Rightarrow> (Inl (JWTValidationError TokenExpired), m')
      | Inl JWTClaimsError \<Rightarrow> (Inl (JWTValidationError ClaimsInvalid), m')
      | Inl JWTError \<Rightarrow> (Inl (JWTValidationError ValidationFailed), m')
      | Inr payload \<Rightarrow>
          (case validate_payload payload required_tenant_id required_scopes now3 of
             Some e \<Rightarrow> (Inl e, m')
           | None \<Rightarrow> (Inr payload, m')))))))"

text \<open>
  The algorithm a token names in its header, and the contract of the library's
  \<open>decode\<close> that the validator relies on: a token whose header cannot be read, names no
  algorithm or names one that is not in \<open>algorithms\<close> is refused with \<open>JWTError\<close>,
  whatever the key.
\<close>

definition token_alg :: "'k jose \<Rightarrow> string \<Rightarrow> string option" where
  "token_alg lib token =
     (case get_unverified_header lib token of None \<Rightarrow> None | Some h \<Rightarrow> h ''alg'')"

definition decode_checks_algorithms :: "'k jose \<Rightarrow> bool" where
  "decode_checks_algorithms lib =
     (\<forall>token key algorithms.
        (case token_alg lib token of None \<Rightarrow> True | Some a \<Rightarrow> a \<notin> set algorithms)
        \<longrightarrow> decode lib token key algorithms = Inl JWTError)"

text \<open>
  A toy library for the concrete cases: the token \<open>hs.token\<close> names the symmetric
  algorithm \<open>HS256\<close> and the key \<open>k1\<close>, the token \<open>rs.token\<close> names \<open>RS256\<close>; \<open>decode\<close>
  checks the algorithm of the header against \<open>algorithms\<close> and nothing else.
\<close>

definition toy_header :: "string \<Rightarrow> (string \<rightharpoonup> string) option" where
  "toy_header token =
     (if token = ''hs.token'' then Some [''alg'' \<mapsto> ''HS256'', ''kid'' \<mapsto> ''k1'']
      else if token = ''rs.token'' then Some [''alg'' \<mapsto> ''RS256'', ''kid'' \<mapsto> ''k1'']
      else None)"

definition toy_claims :: claims where
  "toy_claims = [''sub'' \<mapsto> JStr ''alice'', ''iat'' \<mapsto> JNum 1000, ''exp'' \<mapsto> JNum 5000]"

definition toy_jose :: "jwk jose" where
  "toy_jose =
     \<lparr>get_unverified_header = toy_header,
      construct = (\<lambda>jwk_data. Some jwk_data),
      decode = (\<lambda>token key algorithms.
        case toy_header token of
          None \<Rightarrow> Inl JWTError
        | Some h \<Rightarrow>
            (case h ''alg'' of
               None \<Rightarrow> Inl JWTError
             | Some a \<Rightarrow> if a \<in> set algorithms then Inr toy_claims else Inl JWTError))\<rparr>"

definition key1 :: jwk where
  "key1 = [''kid'' \<mapsto> ''k1'', ''kty'' \<mapsto> ''oct'']"

definition key2 :: jwk where
  "key2 = [''kid'' \<mapsto> ''k2'', ''kty'' \<mapsto> ''RSA'']"

definition fresh_manager :: JWKSManager where
  "fresh_manager =
     \<lparr>cache_ttl = 3600, keys_cache = Some [KeyObject key1], cache_timestamp = 0, fetches = 1\<rparr>"

definition rotated_endpoint :: "nat \<Rightarrow> http_result" where
  "rotated_endpoint n = Body (Keys [KeyObject key1, KeyObject key2])"

text \<open>
  A manager that has fetched nothing yet, and an endpoint whose \<open>keys\<close> array holds a
  string where a key object should be.
\<close>

definition empty_manager :: JWKSManager where
  "empty_manager = \<lparr>cache_ttl = 3600, keys_cache = None, cache_timestamp = 0, fetches = 0\<rparr>"

definition garbled_endpoint :: "nat \<Rightarrow> http_result" where
  "garbled_endpoint n = Body (Keys [NotAnObject])"

section \<open>Semantic scorer: \<open>_calculate_semantic_similarity\<close> in \<open>pipeline.py\<close>\<close>

text \<open>
  The arithmetic of the scorer is that of real numbers here: an embedding is a list of
  reals, and rounding is left out. What is kept of floating point is the outcome of a
  division by zero, which NumPy does not raise: zero by zero is NaN, anything else by zero
  an infinity. \<open>sentence_transformer\<close> is \<open>None\<close> when the model was not loaded, and an
  encoder that raises returns \<open>None\<close>.
\<close>

datatype pyfloat = Finite real | PosInf | NegInf | NaN

definition np_dot :: "real list \<Rightarrow> real list \<Rightarrow> real option" where
  "np_dot a b = (if length a = length b then Some (sum_list (map2 (*) a b)) else None)"

definition linalg_norm :: "real list \<Rightarrow> real" where
  "linalg_norm a = sqrt (sum_list (map (\<lambda>x. x * x) a))"

definition np_divide :: "real \<Rightarrow> real \<Rightarrow> pyfloat" where
  "np_divide x y =
     (if y \<noteq> 0 then Finite (x / y)
      else if x = 0 then NaN else if x > 0 then PosInf else NegInf)"

text \<open>
  \<open>max(0.0, min(1.0, x))\<close> with Python's \<open>min\<close> and \<open>max\<close>, which keep their first
  argument unless the second compares smaller (larger): NaN compares false with
  everything, so \<open>min(1.0, nan)\<close> is \<open>1.0\<close>.
\<close>

fun clip :: "pyfloat \<Rightarrow> real" where
  "clip (Finite x) = max 0 (min 1 x)"
| "clip PosInf = 1"
| "clip NegInf = 0"
| "clip NaN = 1"

definition calculate_semantic_similarity ::
  "(string list \<Rightarrow> real list list option) option \<Rightarrow> string \<Rightarrow> string \<Rightarrow> real" where
  "calculate_semantic_similarity sentence_transformer text1 text2 =
     (case sentence_transformer of
        None \<Rightarrow> 0.5
      | Some encode \<Rightarrow>
          (case encode [text1, text2] of
             None \<Rightarrow> 0.5
           | Some embeddings \<Rightarrow>
               (case embeddings of
                  e0 # e1 # rest \<Rightarrow>
                    (case np_dot e0 e1 of
                       None \<Rightarrow> 0.5
                     | Some d \<Rightarrow> clip (np_divide d (linalg_norm e0 * linalg_norm e1)))
                | _ \<Rightarrow> 0.5)))"

text \<open>
  When the scorer fails: no model, an encoder that raises, fewer than two embeddings,
  or two embeddings of different lengths.
\<close>

definition scoring_fails ::
  "(string list \<Rightarrow> real list list option) option \<Rightarrow> string \<Rightarrow> string \<Rightarrow> bool" where
  "scoring_fails sentence_transformer text1 text2 =
     (case sentence_transformer of
        None \<Rightarrow> True
      | Some encode \<Rightarrow>
          (case encode [text1, text2] of
             None \<Rightarrow> True
           | Some embeddings \<Rightarrow>
               (case embeddings of
                  e0 # e1 # rest \<Rightarrow> length e0 \<noteq> length e1
                | _ \<Rightarrow> True)))"

text \<open>An encoder for the concrete cases: one embedding per text, and one that raises.\<close>

definition toy_embedding :: "string \<Rightarrow> real list" where
  "toy_embedding t = (if t = ''east'' then [3, 4] else if t = ''west'' then [-3, -4] else [4, 3])"

definition toy_encoder :: "string list \<Rightarrow> real list list option" where
  "toy_encoder texts = Some (map toy_embedding texts)"

definition broken_encoder :: "string list \<Rightarrow> real list list option" where
  "broken_encoder texts = None"

section \<open>Properties of the summarization engine\<close>



lemma track_best_calls [simp]: "backend_calls (track_best s sc st) = backend_calls st"
  by (simp add: track_best_def)

lemma track_best_score: "best_score (track_best s sc st) = max (best_score st) sc"
  by (simp add: track_best_def max_def)

lemma scores_tracked_mono: "scores_tracked E req cs b \<Longrightarrow> b \<le> b' \<Longrightarrow> scores_tracked E req cs b'"
  by (induction cs) (auto simp: scores_tracked_def split: option.splits)

lemma primary_attempt_tracked:
  assumes "scores_tracked E req (backend_calls st) (best_score st)"
  shows "scores_tracked E req (backend_calls (snd (primary_attempt E req n st)))
           (best_score (snd (primary_attempt E req n st)))"
  using assms scores_tracked_mono [of E req "backend_calls st" "best_score st"]
  by (auto simp: primary_attempt_def Let_def track_best_score scores_tracked_def returned_def
           split: sum.splits)

lemma fallback_attempt_tracked:
  assumes "scores_tracked E req (backend_calls st) (best_score st)"
  shows "scores_tracked E req (backend_calls (snd (fallback_attempt E req st)))
           (best_score (snd (fallback_attempt E req st)))"
  using assms scores_tracked_mono [of E req "backend_calls st" "best_score st"]
  by (auto simp: fallback_attempt_def Let_def track_best_score scores_tracked_def returned_def
           split: sum.splits)

lemma primary_attempt_break:
  "primary_attempt E req n st = (True, st') \<Longrightarrow> semantic_threshold req \<le> best_score st'"
  by (auto simp: primary_attempt_def Let_def track_best_score split: sum.splits if_splits)

lemma fallback_attempt_break:
  "fallback_attempt E req st = (True, st') \<Longrightarrow> semantic_threshold req \<le> best_score st'"
  by (auto simp: fallback_attempt_def Let_def track_best_score split: sum.splits if_splits)

lemma loop_body_tracked:
  assumes "scores_tracked E req (backend_calls st) (best_score st)"
  shows "case loop_body E req n st of
           Break s \<Rightarrow> scores_tracked E req (backend_calls s) (best_score s) \<and>
                      semantic_threshold req \<le> best_score s
         | Continue s \<Rightarrow> scores_tracked E req (backend_calls s) (best_score s)
         | Raise e cs \<Rightarrow> e = RuntimeError"
proof -
  let ?st0 = "st\<lparr>attempts := attempts st + 1\<rparr>"
  obtain b1 st1 where p: "primary_attempt E req n ?st0 = (b1, st1)"
    by (cases "primary_attempt E req n ?st0")
  obtain b2 st2 where f: "fallback_attempt E req st1 = (b2, st2)"
    by (cases "fallback_attempt E req st1")
  from assms have "scores_tracked E req (backend_calls ?st0) (best_score ?st0)" by simp
  from primary_attempt_tracked [OF this, of n] p
  have t1: "scores_tracked E req (backend_calls st1) (best_score st1)" by simp
  from fallback_attempt_tracked [OF t1] f
  have t2: "scores_tracked E req (backend_calls st2) (best_score st2)" by simp
  show ?thesis
    using p f t1 t2 primary_attempt_break [of E req n ?st0 st1]
      fallback_attempt_break [of E req st1 st2]
    by (cases b1; cases b2) (simp_all add: loop_body_def Let_def)
qed

lemma while_loop_Inr:
  assumes "while_loop E req n st = Inr st'"
    and "scores_tracked E req (backend_calls st) (best_score st)"
  shows "scores_tracked E req (backend_calls st') (best_score st') \<and>
         (attempts st < n \<longrightarrow> semantic_threshold req \<le> best_score st')"
  using assms
proof (induction E req n st rule: while_loop.induct)
  case (1 E req n st)
  show ?case
  proof (cases "attempts st < n")
    case False
    with "1.prems" show ?thesis by (simp add: while_loop.simps [of E req n st])
  next
    case True
    note b = loop_body_tracked [OF "1.prems"(2), of n]
    show ?thesis
    proof (cases "loop_body E req n st")
      case (Break s)
      with b True "1.prems"(1) show ?thesis
        by (simp add: while_loop.simps [of E req n st])
    next
      case (Continue s)
      with b have t: "scores_tracked E req (backend_calls s) (best_score s)" by simp
      from loop_body_Continue_attempts [OF Continue] have lt: "attempts s < n"
        by simp
      from Continue True "1.prems"(1) have "while_loop E req n s = Inr st'"
        by (simp add: while_loop.simps [of E req n st])
      from "1.IH" [OF True Continue this t] lt show ?thesis by simp
    next
      case (Raise e cs)
      with True "1.prems"(1) show ?thesis
        by (simp add: while_loop.simps [of E req n st])
    qed
  qed
qed

lemma while_loop_Inl:
  "while_loop E req n st = Inl (e, cs) \<Longrightarrow> e = RuntimeError"
proof (induction E req n st rule: while_loop.induct)
  case (1 E req n st)
  show ?case
  proof (cases "attempts st < n")
    case False
    with "1.prems" show ?thesis by (simp add: while_loop.simps [of E req n st])
  next
    case True
    show ?thesis
    proof (cases "loop_body E req n st")
      case (Break s)
      with True "1.prems" show ?thesis by (simp add: while_loop.simps [of E req n st])
    next
      case (Continue s)
      with True "1.prems" "1.IH" show ?thesis by (simp add: while_loop.simps [of E req n st])
    next
      case (Raise e' cs')
      with True "1.prems" show ?thesis
        by (auto simp: while_loop.simps [of E req n st] loop_body_def Let_def
                 split: prod.splits bool.splits if_splits)
    qed
  qed
qed


lemma loop_body_later:
  assumes "ai_model req \<noteq> ''local''" "1 \<le> attempts st"
  shows "\<exists>p. call_model p = ai_model req \<and>
           (case loop_body E req n st of
              Break s \<Rightarrow> backend_calls s = backend_calls st @ [p]
            | Continue s \<Rightarrow> backend_calls s = backend_calls st @ [p]
            | Raise e cs \<Rightarrow> cs = backend_calls st @ [p])"
  using assms
  by (auto simp: loop_body_def primary_attempt_def fallback_attempt_def Let_def
           split: sum.splits)

lemma while_loop_later_calls:
  assumes "ai_model req \<noteq> ''local''" "1 \<le> attempts st"
  shows "\<exists>ps. final_calls (while_loop E req n st) = backend_calls st @ ps \<and>
              (\<forall>c\<in>set ps. call_model c = ai_model req)"
  using assms
proof (induction E req n st rule: while_loop.induct)
  case (1 E req n st)
  show ?case
  proof (cases "attempts st < n")
    case False
    then show ?thesis by (simp add: while_loop.simps final_calls_def)
  next
    case True
    from loop_body_later [OF "1.prems", of E n]
    obtain p where p: "call_model p = ai_model req"
      and b: "(case loop_body E req n st of
              Break s \<Rightarrow> backend_calls s = backend_calls st @ [p]
            | Continue s \<Rightarrow> backend_calls s = backend_calls st @ [p]
            | Raise e cs \<Rightarrow> cs = backend_calls st @ [p])" by blast
    show ?thesis
    proof (cases "loop_body E req n st")
      case (Break s)
      with b True p show ?thesis
        by (simp add: while_loop.simps [of E req n st] final_calls_def)
    next
      case (Continue s)
      with b have cs: "backend_calls s = backend_calls st @ [p]" by simp
      from loop_body_Continue_attempts [OF Continue] "1.prems"
      have "1 \<le> attempts s" by simp
      from "1.IH" [OF True Continue "1.prems"(1) this]
      obtain ps where "final_calls (while_loop E req n s) = backend_calls s @ ps"
        "\<forall>c\<in>set ps. call_model c = ai_model req" by blast
      with cs p Continue True show ?thesis
        by (simp add: while_loop.simps [of E req n st])
    next
      case (Raise e cs)
      with b True p show ?thesis
        by (simp add: while_loop.simps [of E req n st] final_calls_def)
    qed
  qed
qed

lemma no_local_in_enumerate:
  "\<forall>c\<in>set ps. call_model c \<noteq> ''local'' \<Longrightarrow>
   filter (\<lambda>(i, c). call_model c = ''local'') (enumerate k ps) = []"
  by (induction ps arbitrary: k) auto

lemma fallback_positions_shape:
  assumes "call_model p \<noteq> ''local''" "call_model l = ''local''"
    "\<forall>c\<in>set ps. call_model c \<noteq> ''local''"
  shows "fallback_positions [] = []" "fallback_positions [p] = []"
    "fallback_positions (p # l # ps) = [1]"
  using assms no_local_in_enumerate [of ps "Suc (Suc 0)"]
  by (simp_all add: fallback_positions_def)

lemma calls_to_local_shape:
  assumes "call_model p \<noteq> ''local''" "call_model l = ''local''"
    "\<forall>c\<in>set ps. call_model c \<noteq> ''local''"
  shows "calls_to ''local'' [] = 0" "calls_to ''local'' [p] = 0"
    "calls_to ''local'' (p # l # ps) = 1"
proof -
  from assms(3) have "filter (\<lambda>c. call_model c = ''local'') ps = []"
    by (induction ps) auto
  with assms show "calls_to ''local'' [] = 0" "calls_to ''local'' [p] = 0"
    "calls_to ''local'' (p # l # ps) = 1"
    by (simp_all add: calls_to_def)
qed

lemma loop_body_first:
  assumes "ai_model req \<noteq> ''local''"
  shows "case loop_body E req n (initial_state req) of
           Break s \<Rightarrow>
             (backend_calls s = [first_call E req] \<and>
              returned (generate_with_model E (ai_model req) []) \<noteq> None) \<or>
             backend_calls s = [first_call E req, second_call E req]
         | Continue s \<Rightarrow> backend_calls s = [first_call E req, second_call E req] \<and> attempts s = 1
         | Raise e cs \<Rightarrow> cs = [first_call E req, second_call E req]"
  using assms
  by (auto simp: loop_body_def primary_attempt_def fallback_attempt_def Let_def
        initial_state_def first_call_def second_call_def returned_def
        split: sum.splits bool.splits)

lemma first_pass_calls:
  assumes "ai_model req \<noteq> ''local''"
  shows "\<exists>ps. (\<forall>c\<in>set ps. call_model c = ai_model req) \<and>
           (let cs = final_calls (while_loop E req n (initial_state req)) in
            (cs = [] \<and> n < 1) \<or>
            (cs = [first_call E req] \<and>
             returned (generate_with_model E (ai_model req) []) \<noteq> None) \<or>
            cs = first_call E req # second_call E req # ps)"
proof (cases "attempts (initial_state req) < n")
  case False
  then have "while_loop E req n (initial_state req) = Inr (initial_state req)"
    by (simp add: while_loop.simps [of E req n "initial_state req"])
  with False have "final_calls (while_loop E req n (initial_state req)) = []" "n < 1"
    by (simp_all add: final_calls_def initial_state_def)
  then show ?thesis
    by (intro exI [of _ "[]"]) simp
next
  case True
  note b = loop_body_first [OF assms, of E n]
  show ?thesis
  proof (cases "loop_body E req n (initial_state req)")
    case (Break s)
    with b True have "(final_calls (while_loop E req n (initial_state req)) = [first_call E req] \<and>
        returned (generate_with_model E (ai_model req) []) \<noteq> None) \<or>
        final_calls (while_loop E req n (initial_state req)) =
          first_call E req # second_call E req # []"
      by (simp add: while_loop.simps [of E req n "initial_state req"] final_calls_def)
    then show ?thesis
      by (intro exI [of _ "[]"]) (simp add: Let_def)
  next
    case (Continue s)
    with b have s: "backend_calls s = [first_call E req, second_call E req]" "1 \<le> attempts s"
      by simp_all
    from while_loop_later_calls [OF assms s(2), of E n]
    obtain ps where ps: "final_calls (while_loop E req n s) = backend_calls s @ ps"
      "\<forall>c\<in>set ps. call_model c = ai_model req" by blast
    from Continue True ps(1) s(1)
    have "final_calls (while_loop E req n (initial_state req)) =
        first_call E req # second_call E req # ps"
      by (simp add: while_loop.simps [of E req n "initial_state req"])
    with ps(2) show ?thesis
      by (intro exI [of _ ps]) (simp add: Let_def)
  next
    case (Raise e cs)
    with b True have "final_calls (while_loop E req n (initial_state req)) =
        first_call E req # second_call E req # []"
      by (simp add: while_loop.simps [of E req n "initial_state req"] final_calls_def)
    then show ?thesis
      by (intro exI [of _ "[]"]) (simp add: Let_def)
  qed
qed

lemma generate_summary_calls:
  "retry_attempts req = Some n \<Longrightarrow>
   snd (generate_summary E req) = final_calls (while_loop E req n (initial_state req))"
  by (simp add: generate_summary_def final_calls_def split: sum.splits prod.splits)

lemma scores_tracked_iff:
  "scores_tracked E req cs b \<longleftrightarrow>
     (\<forall>c\<in>set cs. \<forall>s. call_result c = Some s \<longrightarrow> scorer E (text_blob req) s \<le> b)"
  by (auto simp: scores_tracked_def list_all_iff split: option.splits)

text \<open>
  With a retry budget of at least one, the loop is left by \<open>break\<close> or by the bare
  \<open>raise\<close>: the test of the \<open>while\<close> never fails after a completed pass. The errors
  that leave \<open>generate_summary\<close> are \<open>RuntimeError\<close> and the validation error of the
  response model, never \<open>SemanticThresholdError\<close> or \<open>ModelError\<close>.
\<close>

lemma generate_summary_errors:
  assumes "retry_attempts req = Some n" and "1 \<le> n"
    and "fst (generate_summary E req) = Inl e"
  shows "e = RuntimeError \<or> e = ValidationError"
proof (cases "while_loop E req n (initial_state req)")
  case (Inl a)
  obtain e' cs where a: "a = (e', cs)" by (cases a)
  with Inl have "e' = RuntimeError" by (simp add: while_loop_Inl)
  with Inl a assms show ?thesis by (simp add: generate_summary_def)
next
  case (Inr st)
  have "scores_tracked E req (backend_calls (initial_state req)) (best_score (initial_state req))"
    by (simp add: scores_tracked_def initial_state_def)
  from while_loop_Inr [OF Inr this] assms(2)
  have "semantic_threshold req \<le> best_score st" by (simp add: initial_state_def)
  with Inr assms show ?thesis
    by (auto simp: generate_summary_def build_response_def split: option.splits if_splits)
qed


subsection \<open>The claims about the engine\<close>

lemmas run_pipeline =
  generate_summary_def initial_state_def while_loop.simps loop_body_def primary_attempt_def
  fallback_attempt_def generate_with_model_def generate_def returned_def calls_to_def
  track_best_def build_response_def Let_def

text \<open>
  C1. When the retry budget is exhausted and the best score stays below the threshold,
  \<open>generate_summary\<close> should raise \<open>SemanticThresholdError\<close> with the attempts made and
  the best score. The scenario of the repository's test
  \<open>test_semantic_threshold_not_met_failure\<close> (two attempts, threshold 0.8, every summary
  of the requested model scored 0.5, no usable local model): the bare \<open>raise\<close> that ends
  the second pass is reached before the check after the loop, and the call ends in
  \<open>RuntimeError\<close>, which carries neither number.
\<close>

theorem threshold_not_met_raises_RuntimeError:
  "generate_summary poor_env threshold_req =
     (Inl RuntimeError,
      [\<lparr>call_model = ''openai'', call_result = Some ''Poor summary''\<rparr>,
       \<lparr>call_model = ''local'', call_result = None\<rparr>,
       \<lparr>call_model = ''openai'', call_result = Some ''Poor summary''\<rparr>])"
  by (simp add: threshold_req_def poor_env_def run_pipeline)

text \<open>
  C5. Retry budget 3, threshold 0.8, a backend whose three summaries score 0.7, 0.75 and
  0.92: the response should carry the third text, \<open>retry_count = 2\<close>, the status
  \<open>partial_success\<close> and exactly two warnings. The scenario of the repository's test
  \<open>test_semantic_threshold_retry_with_real_api\<close> (requested model \<open>openai\<close>, no usable
  local model): the fallback block runs after the first attempt although that attempt
  succeeded, and its warning makes three.
\<close>

theorem stub_three_attempts_three_warnings:
  "outcome (generate_summary stub_env stub_req) = Inr (''third'', 2, ''partial_success'', 3)"
  by (simp add: outcome_def stub_req_def stub_env_def run_pipeline)

text \<open>With the local model requested there is no fallback, and the same scores give two warnings.\<close>

lemma stub_three_attempts_local:
  "outcome (generate_summary (stub_env\<lparr>generate_out := (\<lambda>m k.
        if k = 0 then Some ''first'' else if k = 1 then Some ''second'' else Some ''third'')\<rparr>) (stub_req\<lparr>ai_model := ''local''\<rparr>)) = Inr (''third'', 2, ''partial_success'', 2)"
  by (simp add: outcome_def stub_req_def stub_env_def run_pipeline)

lemma late_failure_calls:
  "snd (generate_summary late_failure_env stub_req) =
     [\<lparr>call_model = ''openai'', call_result = Some ''first''\<rparr>,
      \<lparr>call_model = ''local'', call_result = Some ''local text''\<rparr>,
      \<lparr>call_model = ''openai'', call_result = None\<rparr>,
      \<lparr>call_model = ''openai'', call_result = Some ''third''\<rparr>]"
  by (simp add: stub_req_def late_failure_env_def run_pipeline)

text \<open>
  The fallback step keeps the better of the best result so far and its own; and a fallback
  summary that reaches the threshold, after a first primary attempt that failed or stayed
  below it, ends the loop and is what the response carries.
\<close>

lemma fallback_step_tracks:
  assumes "ai_model req \<noteq> ''local''" "attempts st = 1"
    "generate_with_model E ''local'' (backend_calls st) = Inr s"
  shows "best_score (snd (fallback_attempt E req st)) =
           max (best_score st) (scorer E (text_blob req) s) \<and>
         best_summary (snd (fallback_attempt E req st)) =
           (if scorer E (text_blob req) s > best_score st then s else best_summary st)"
  using assms by (simp add: fallback_attempt_def Let_def track_best_def)

lemma fallback_result_returned:
  assumes m: "ai_model req \<noteq> ''local''" and r: "retry_attempts req = Some n" and n: "1 \<le> n"
    and rid: "request_id req = Some rid"
    and p: "case generate_with_model E (ai_model req) [] of Inl e \<Rightarrow> True
            | Inr s0 \<Rightarrow> scorer E (text_blob req) s0 < semantic_threshold req"
    and l: "generate_with_model E ''local'' [first_call E req] = Inr s"
    and t: "semantic_threshold req \<le> scorer E (text_blob req) s"
    and pos: "0 < scorer E (text_blob req) s" and le: "scorer E (text_blob req) s \<le> 1"
  shows "\<exists>resp. fst (generate_summary E req) = Inr resp \<and> refined_text resp = s \<and>
           semantic_score resp = scorer E (text_blob req) s \<and> model_used resp = ''local'' \<and>
           retry_count resp = 0"
proof -
  let ?st0 = "(initial_state req)\<lparr>attempts := 1\<rparr>"
  define st1 where "st1 = snd (primary_attempt E req n ?st0)"
  have p1: "primary_attempt E req n ?st0 = (False, st1)"
    and b1: "backend_calls st1 = [first_call E req]" and a1: "attempts st1 = 1"
    and s1: "best_score st1 < scorer E (text_blob req) s"
    using p t pos unfolding st1_def
    by (cases "generate_with_model E (ai_model req) []";
        simp add: primary_attempt_def Let_def initial_state_def first_call_def returned_def
          track_best_def)+
  define st2 where "st2 = snd (fallback_attempt E req st1)"
  have f: "fallback_attempt E req st1 = (True, st2)"
    and s2: "best_score st2 = scorer E (text_blob req) s" "best_summary st2 = s"
      "model_used_var st2 = ''local''" "attempts st2 = 1"
    using m a1 b1 l t s1 unfolding st2_def
    by (simp_all add: fallback_attempt_def Let_def track_best_def)
  have i: "attempts (initial_state req) = 0" by (simp add: initial_state_def)
  from n p1 f have w: "while_loop E req n (initial_state req) = Inr st2"
    by (simp add: while_loop.simps [of E req n "initial_state req"] loop_body_def Let_def i)
  from r w s2 t rid pos le show ?thesis
    by (simp add: generate_summary_def build_response_def)
qed

text \<open>
  The claim C2 as the specification words it fails where the first attempt succeeds below
  the threshold and the second attempt is the first to fail: the one fallback call is the
  second call of the request, and no fallback follows the failure.
\<close>

theorem fallback_not_after_first_primary_failure:
  "\<not> fallback_after_first_primary_failure (snd (generate_summary late_failure_env stub_req))"
  by (simp add: late_failure_calls fallback_after_first_primary_failure_def
        fallback_positions_def primary_failure_positions_def)

text \<open>
  C2 (amended). For every request whose model is not \<open>local\<close>: the local model is called at
  most once; a fallback call can only be the second backend call of the request, directly
  after the first primary attempt, so a primary failure on a later attempt triggers none;
  when the first primary attempt fails (and the budget is at least one) the fallback call is
  made. The fallback's result takes part in the tracking of the best result: the fallback
  step leaves as best score the larger of the best score before it and the fallback's
  score, and as best summary the fallback's when its score is the larger; a fallback
  summary whose score is positive and reaches the threshold, after a first primary attempt
  that failed or scored below the threshold, is returned with its text, its score and the
  model \<open>local\<close> (given a request id and a score of at most 1, which the response
  model requires); and when a response is returned, its score is at least the score of
  every summary generated during the request, the fallback's included.
\<close>

theorem fallback_once_after_first_attempt:
  assumes "ai_model req \<noteq> ''local''" and "retry_attempts req = Some n"
  shows "calls_to ''local'' (snd (generate_summary E req)) \<le> 1 \<and>
         (fallback_positions (snd (generate_summary E req)) = [] \<or>
          fallback_positions (snd (generate_summary E req)) = [1]) \<and>
         (1 \<le> n \<and> generate_with_model E (ai_model req) [] = Inl ModelError \<longrightarrow>
            fallback_positions (snd (generate_summary E req)) = [1]) \<and>
         (\<forall>resp. fst (generate_summary E req) = Inr resp \<longrightarrow>
            (\<forall>c\<in>set (snd (generate_summary E req)). \<forall>s. call_result c = Some s \<longrightarrow>
               scorer E (text_blob req) s \<le> semantic_score resp)) \<and>
         (\<forall>st s. attempts st = 1 \<and> generate_with_model E ''local'' (backend_calls st) = Inr s \<longrightarrow>
            best_score (snd (fallback_attempt E req st)) =
              max (best_score st) (scorer E (text_blob req) s) \<and>
            best_summary (snd (fallback_attempt E req st)) =
              (if scorer E (text_blob req) s > best_score st then s else best_summary st)) \<and>
         (\<forall>s rid. 1 \<le> n \<and> request_id req = Some rid \<and>
            (case generate_with_model E (ai_model req) [] of Inl e \<Rightarrow> True
             | Inr s0 \<Rightarrow> scorer E (text_blob req) s0 < semantic_threshold req) \<and>
            generate_with_model E ''local'' [first_call E req] = Inr s \<and>
            semantic_threshold req \<le> scorer E (text_blob req) s \<and>
            0 < scorer E (text_blob req) s \<and> scorer E (text_blob req) s \<le> 1 \<longrightarrow>
            (\<exists>resp. fst (generate_summary E req) = Inr resp \<and> refined_text resp = s \<and>
               semantic_score resp = scorer E (text_blob req) s \<and>
               model_used resp = ''local''))"
proof -
  let ?cs = "snd (generate_summary E req)"
  let ?p = "first_call E req" and ?l = "second_call E req"
  have p: "call_model ?p \<noteq> ''local''" and l: "call_model ?l = ''local''"
    using assms(1) by (simp_all add: first_call_def second_call_def)
  from first_pass_calls [OF assms(1), of E n] generate_summary_calls [OF assms(2), of E]
  obtain ps where ps: "\<forall>c\<in>set ps. call_model c = ai_model req"
    and shape: "(?cs = [] \<and> n < 1) \<or>
        (?cs = [?p] \<and> returned (generate_with_model E (ai_model req) []) \<noteq> None) \<or>
        ?cs = ?p # ?l # ps"
    by (auto simp: Let_def)
  from ps assms(1) have ps': "\<forall>c\<in>set ps. call_model c \<noteq> ''local''" by simp
  note fp = fallback_positions_shape [OF p l ps']
  note ct = calls_to_local_shape [OF p l ps']
  from shape ct have once: "calls_to ''local'' ?cs \<le> 1" by auto
  from shape fp have pos: "fallback_positions ?cs = [] \<or> fallback_positions ?cs = [1]"
    by auto
  from shape fp have fail:
    "1 \<le> n \<and> generate_with_model E (ai_model req) [] = Inl ModelError \<longrightarrow>
       fallback_positions ?cs = [1]"
    by (auto simp: returned_def)
  have best: "\<forall>resp. fst (generate_summary E req) = Inr resp \<longrightarrow>
      (\<forall>c\<in>set ?cs. \<forall>s. call_result c = Some s \<longrightarrow>
         scorer E (text_blob req) s \<le> semantic_score resp)"
  proof (intro allI impI)
    fix resp assume r: "fst (generate_summary E req) = Inr resp"
    have init: "scores_tracked E req (backend_calls (initial_state req)) (best_score (initial_state req))"
      by (simp add: scores_tracked_def initial_state_def)
    from r assms(2) obtain st where st: "while_loop E req n (initial_state req) = Inr st"
      and resp: "build_response req st = Inr resp" and cs: "?cs = backend_calls st"
      by (auto simp: generate_summary_def split: sum.splits prod.splits if_splits)
    from while_loop_Inr [OF st init] have "scores_tracked E req (backend_calls st) (best_score st)"
      by simp
    with resp cs show "\<forall>c\<in>set ?cs. \<forall>s. call_result c = Some s \<longrightarrow>
         scorer E (text_blob req) s \<le> semantic_score resp"
      by (auto simp: scores_tracked_iff build_response_def split: option.splits if_splits)
  qed
  have step: "\<forall>st s. attempts st = 1 \<and>
        generate_with_model E ''local'' (backend_calls st) = Inr s \<longrightarrow>
      best_score (snd (fallback_attempt E req st)) =
        max (best_score st) (scorer E (text_blob req) s) \<and>
      best_summary (snd (fallback_attempt E req st)) =
        (if scorer E (text_blob req) s > best_score st then s else best_summary st)"
    using fallback_step_tracks [OF assms(1)] by blast
  have ret: "\<forall>s rid. 1 \<le> n \<and> request_id req = Some rid \<and>
      (case generate_with_model E (ai_model req) [] of Inl e \<Rightarrow> True
       | Inr s0 \<Rightarrow> scorer E (text_blob req) s0 < semantic_threshold req) \<and>
      generate_with_model E ''local'' [first_call E req] = Inr s \<and>
      semantic_threshold req \<le> scorer E (text_blob req) s \<and>
      0 < scorer E (text_blob req) s \<and> scorer E (text_blob req) s \<le> 1 \<longrightarrow>
      (\<exists>resp. fst (generate_summary E req) = Inr resp \<and> refined_text resp = s \<and>
         semantic_score resp = scorer E (text_blob req) s \<and> model_used resp = ''local'')"
  proof (intro allI impI)
    fix s rid
    assume a: "1 \<le> n \<and> request_id req = Some rid \<and>
      (case generate_with_model E (ai_model req) [] of Inl e \<Rightarrow> True
       | Inr s0 \<Rightarrow> scorer E (text_blob req) s0 < semantic_threshold req) \<and>
      generate_with_model E ''local'' [first_call E req] = Inr s \<and>
      semantic_threshold req \<le> scorer E (text_blob req) s \<and>
      0 < scorer E (text_blob req) s \<and> scorer E (text_blob req) s \<le> 1"
    from fallback_result_returned [OF assms(1,2), of rid E s] a
    show "\<exists>resp. fst (generate_summary E req) = Inr resp \<and> refined_text resp = s \<and>
         semantic_score resp = scorer E (text_blob req) s \<and> model_used resp = ''local''"
      by blast
  qed
  from once pos fail best step ret show ?thesis by blast
qed

theorem fallback_once_after_first_attempt_witness:
  "ai_model stub_req \<noteq> ''local'' \<and> retry_attempts stub_req = Some 3 \<and>
   generate_with_model failing_primary_env (ai_model stub_req) [] = Inl ModelError \<and>
   calls_to ''local'' (snd (generate_summary failing_primary_env stub_req)) \<le> 1 \<and>
   fallback_positions (snd (generate_summary failing_primary_env stub_req)) = [1] \<and>
   outcome (generate_summary failing_primary_env stub_req) =
     Inr (''Local fallback summary.'', 0, ''partial_success'', 1) \<and>
   generate_with_model failing_primary_env ''local'' [first_call failing_primary_env stub_req] =
     Inr ''Local fallback summary.'' \<and>
   scorer failing_primary_env (text_blob stub_req) ''Local fallback summary.'' = 85 / 100 \<and>
   semantic_threshold stub_req = 8 / 10 \<and>
   (\<exists>resp. fst (generate_summary failing_primary_env stub_req) = Inr resp \<and>
      refined_text resp = ''Local fallback summary.'' \<and> semantic_score resp = 85 / 100 \<and>
      model_used resp = ''local'')"
proof -
  have h1: "ai_model stub_req \<noteq> ''local''" and h2: "retry_attempts stub_req = Some 3"
    by (simp_all add: stub_req_def)
  have h3: "generate_with_model failing_primary_env (ai_model stub_req) [] = Inl ModelError"
    by (simp add: stub_req_def failing_primary_env_def generate_with_model_def generate_def)
  have o: "outcome (generate_summary failing_primary_env stub_req) =
     Inr (''Local fallback summary.'', 0, ''partial_success'', 1)"
    by (simp add: outcome_def stub_req_def failing_primary_env_def run_pipeline)
  have h4: "generate_with_model failing_primary_env ''local''
              [first_call failing_primary_env stub_req] = Inr ''Local fallback summary.''"
    and h5: "scorer failing_primary_env (text_blob stub_req) ''Local fallback summary.'' = 85 / 100"
    and h6: "semantic_threshold stub_req = 8 / 10" and h7: "request_id stub_req = Some ''r2''"
    by (simp_all add: stub_req_def failing_primary_env_def generate_with_model_def generate_def
          first_call_def calls_to_def)
  have r: "\<exists>resp. fst (generate_summary failing_primary_env stub_req) = Inr resp \<and>
      refined_text resp = ''Local fallback summary.'' \<and> semantic_score resp = 85 / 100 \<and>
      model_used resp = ''local''"
    using fallback_once_after_first_attempt [OF h1 h2, of failing_primary_env] h3 h4 h5 h6 h7
    by simp
  from fallback_once_after_first_attempt [OF h1 h2, of failing_primary_env] h1 h2 h3 o h4 h5 h6 r
  show ?thesis by simp
qed

section \<open>Properties of the rate limiter\<close>

lemma is_allowed_history:
  "history (snd (is_allowed rl key now)) key =
     (let kept = filter (\<lambda>t. now - t < real_of_int (period rl)) (history rl key)
      in if int (length kept) \<ge> calls rl then kept else kept @ [now])"
  by (auto simp: is_allowed_def history_def Let_def split: option.splits)

lemma is_allowed_answer:
  "fst (is_allowed rl key now) \<longleftrightarrow>
     int (length (filter (\<lambda>t. now - t < real_of_int (period rl)) (history rl key))) < calls rl"
  by (auto simp: is_allowed_def history_def Let_def split: option.splits)


text \<open>
  What a single check answers, in any state of the limiter: rejected when the requests on
  record inside the window are as many as the limit; allowed, for a limit of at least one,
  when a full window has passed since every request on record, which that check evicts.
\<close>

lemma window_check:
  "(calls rl \<le> int (length (filter (\<lambda>t. now - t < real_of_int (period rl)) (history rl key)))
      \<longrightarrow> \<not> fst (is_allowed rl key now)) \<and>
   (0 < calls rl \<and> (\<forall>t\<in>set (history rl key). real_of_int (period rl) \<le> later - t)
      \<longrightarrow> fst (is_allowed rl key later) \<and> history (snd (is_allowed rl key later)) key = [later])"
proof (intro conjI impI)
  assume "calls rl \<le> int (length (filter (\<lambda>t. now - t < real_of_int (period rl)) (history rl key)))"
  then show "\<not> fst (is_allowed rl key now)" by (simp add: is_allowed_answer)
next
  assume a: "0 < calls rl \<and> (\<forall>t\<in>set (history rl key). real_of_int (period rl) \<le> later - t)"
  then have e: "filter (\<lambda>t. later - t < real_of_int (period rl)) (history rl key) = []"
    by (auto simp: filter_empty_conv)
  with a show "fst (is_allowed rl key later)" by (simp add: is_allowed_answer)
  from e a show "history (snd (is_allowed rl key later)) key = [later]"
    by (simp add: is_allowed_history)
qed





section \<open>Properties of the data gateway\<close>


lemma resolve_contexts_Some:
  "resolve_contexts db path = Some s \<Longrightarrow> schemas db s \<noteq> None"
  by (induction path) (auto split: option.splits)


lemma get_connection_upd [simp]:
  "get_connection U (db\<lparr>schemas := x\<rparr>) tid = get_connection U db tid"
  by (simp add: get_connection_def)

lemma sql_update_identity:
  "sql_update now p1 p2 p3 p4 p5 p6 tbl = Inr (n, tbl') \<Longrightarrow>
   map_option identity_fields (tbl' i) = map_option identity_fields (tbl i)"
  by (auto simp: sql_update_def identity_fields_def split: option.splits if_splits)


text \<open>
  C10. Whatever an \<open>update_context\<close> call is given and whether it succeeds or not, every
  record of every schema keeps its \<open>id\<close>, \<open>tenant_id\<close>, \<open>user_id\<close>, \<open>context_type\<close> and
  \<open>created_at\<close>, and no record appears or disappears.
\<close>

theorem update_preserves_identity_fields:
  "map_option identity_fields (stored_row (snd (update_context U db now tid cid u)) s i) =
   map_option identity_fields (stored_row db s i)"
proof (cases "fst (update_context U db now tid cid u)")
  case (Inl e)
  then have "snd (update_context U db now tid cid u) = db"
    by (auto simp: update_context_def split: sum.splits option.splits prod.splits)
  then show ?thesis by simp
next
  case (Inr b)
  then obtain path cj s' n tbl' where
    s': "resolve_contexts db path = Some s'"
    and u: "sql_update now cid cj (upd_title u) (upd_description u) (upd_tags u)
              (upd_expires_at u) (the (schemas db s')) = Inr (n, tbl')"
    and db': "snd (update_context U db now tid cid u) = db\<lparr>schemas := (schemas db)(s' \<mapsto> tbl')\<rparr>"
    by (auto simp: update_context_def split: sum.splits option.splits prod.splits)
  from resolve_contexts_Some [OF s'] obtain tbl where tbl: "schemas db s' = Some tbl" by auto
  show ?thesis
  proof (cases "s = s'")
    case True
    with db' tbl sql_update_identity [OF u, of i] show ?thesis
      by (simp add: stored_row_def)
  next
    case False
    with db' show ?thesis by (simp add: stored_row_def)
  qed
qed





lemmas run_repository =
  update_context_def delete_context_def get_connection_def valid_tenant_id_def isalnum_char_def
  schema_name_def ascii_lower_def utf8_length_def py_def latin1_def varchar_def title_fits_def
  title_accepted_def text_param_def
  sql_update_def sql_soft_delete_def json_dumps_def live_def coalesce_def coalesce_opt_def
  tenant_row_def stored_row_def usable_def dumps_ok_def sample_db_def sample_row_def
  no_fields_def Let_def



lemma update_preserves_identity_fields_sample:
  "map_option identity_fields
     (stored_row (snd (update_context latin1 sample_db 200 (py ''acme'') ''ctx_1'' retitle))
        (py ''tenant_acme'') ''ctx_1'') =
   Some (''ctx_1'', ''acme'', Some ''u1'', ''note'', 100) \<and>
   map_option title
     (stored_row (snd (update_context latin1 sample_db 200 (py ''acme'') ''ctx_1'' retitle))
        (py ''tenant_acme'') ''ctx_1'') =
   Some (Some (py ''new title''))"
  by (simp add: run_repository retitle_def identity_fields_def)

text \<open>
  Two concrete cases: a title of 256 characters fails the statement though
  no row has the id, and a tenant id with a letter beyond ASCII passes the check and
  names its schema.
\<close>

lemma long_title_refused_without_row:
  "update_context latin1 sample_db 200 (py ''acme'') ''ctx_missing''
     (no_fields\<lparr>upd_title := Some (replicate 256 120)\<rparr>) = (Inl DatabaseError, sample_db)"
  by (simp add: update_context_def get_connection_def valid_tenant_id_def isalnum_char_def
        py_def sample_db_def no_fields_def sql_update_def varchar_def schema_name_def
        ascii_lower_def utf8_length_def title_accepted_def text_param_def list_all_iff)

lemma unicode_tenant_served:
  "get_connection latin1 sample_db (py ''caf'' @ [233]) =
     Inr [py ''tenant_caf'' @ [233], py ''public'']"
  by (simp add: get_connection_def valid_tenant_id_def isalnum_char_def latin1_def
        py_def sample_db_def schema_name_def ascii_lower_def utf8_length_def)

section \<open>Properties of the key cache and the validator\<close>


lemma get_jwks_fetches:
  "fetches (snd (get_jwks endpoint m now force)) \<le> fetches m + 1"
  by (simp add: get_jwks_def Let_def
        split: http_result.splits jwks_document.splits other_json.splits)

lemma get_jwks_forced:
  "endpoint (fetches m) = Body (Keys ks) \<Longrightarrow>
   get_jwks endpoint m now True =
     (Inr ks, m\<lparr>fetches := fetches m + 1, keys_cache := Some ks, cache_timestamp := now\<rparr>)"
  by (simp add: get_jwks_def Let_def)

lemma get_jwks_cached:
  "keys_cache m = Some ks \<Longrightarrow> now - cache_timestamp m < real_of_int (cache_ttl m) \<Longrightarrow>
   get_jwks endpoint m now False = (Inr ks, m)"
  by (simp add: get_jwks_def)

lemma find_kid_None: "find_kid kid ks = None \<longleftrightarrow> (\<forall>k\<in>set ks. k ''kid'' \<noteq> Some kid)"
  by (auto simp: find_kid_def find_None_iff)

lemma find_kid_Some: "find_kid kid ks = Some k \<Longrightarrow> k \<in> set ks \<and> k ''kid'' = Some kid"
  by (auto simp: find_kid_def find_Some_iff)

lemma search_keys_objects: "search_keys kid (map KeyObject ks) = Inr (find_kid kid ks)"
  by (induction ks) (simp_all add: find_kid_def)

lemma search_keys_error: "search_keys kid ms = Inl e \<Longrightarrow> e = PyAttributeError \<and> \<not> list_all is_object ms"
  by (induction kid ms rule: search_keys.induct) (auto split: if_splits)

text \<open>
  What \<open>get_jwks\<close> leaves in the cache is what it had or what the endpoint served, and it
  raises something other than \<open>JWKSError\<close> only on an answer that is not well-formed.
\<close>

lemma get_jwks_well_formed:
  assumes "well_formed_cache m" and "well_formed (endpoint (fetches m))"
    and "get_jwks endpoint m now force = (r, m')"
  shows "well_formed_cache m' \<and> (fetches m' = fetches m \<or> fetches m' = fetches m + 1) \<and>
         (case r of Inl e \<Rightarrow> e = JWKSError | Inr ms \<Rightarrow> list_all is_object ms)"
  using assms
  by (auto simp: get_jwks_def Let_def well_formed_cache_def
        split: if_splits http_result.splits jwks_document.splits other_json.splits
          option.splits)

lemma get_key_by_kid_well_formed:
  assumes "well_formed_cache m" and "well_formed (endpoint (fetches m))"
    and "well_formed (endpoint (fetches m + 1))"
    and "get_key_by_kid endpoint m now1 now2 kid = (Inl e, m')"
  shows "e = JWKSError"
proof -
  obtain r1 m1 where g1: "get_jwks endpoint m now1 False = (r1, m1)"
    by (cases "get_jwks endpoint m now1 False")
  from get_jwks_well_formed [OF assms(1,2) g1]
  have w1: "well_formed_cache m1" "fetches m1 = fetches m \<or> fetches m1 = fetches m + 1"
    "case r1 of Inl e \<Rightarrow> e = JWKSError | Inr ms \<Rightarrow> list_all is_object ms"
    by simp_all
  from w1(2) assms(2,3) have e1: "well_formed (endpoint (fetches m1))" by auto
  obtain r2 m2 where g2: "get_jwks endpoint m1 now2 True = (r2, m2)"
    by (cases "get_jwks endpoint m1 now2 True")
  from get_jwks_well_formed [OF w1(1) e1 g2]
  have w2: "case r2 of Inl e \<Rightarrow> e = JWKSError | Inr ms \<Rightarrow> list_all is_object ms"
    by simp
  from assms(4) g1 g2 w1(3) w2 show ?thesis
    by (auto simp: get_key_by_kid_def split: sum.splits option.splits
          dest: search_keys_error)
qed

text \<open>
  C4. A call of \<open>get_key_by_kid\<close> sends at most two requests to the JWKS endpoint. With a
  cache that is fresh and does not hold the \<open>kid\<close>, it sends exactly one, the forced
  refresh, and answers from the key set that refresh returns: the first key there with the
  \<open>kid\<close> when there is one, \<open>None\<close> when there is none. The same holds for whatever
  key set the first, unforced lookup worked on; and when members of the arrays are not
  objects, a first search that ends without a key and without an exception is followed by
  the search of the refreshed array, whose outcome is the outcome of the call.
\<close>

theorem get_key_by_kid_one_forced_refresh:
  "fetches (snd (get_key_by_kid endpoint m now1 now2 kid)) \<le> fetches m + 2 \<and>
   (keys_cache m = Some (map KeyObject cached) \<and>
    now1 - cache_timestamp m < real_of_int (cache_ttl m) \<and>
    (\<forall>k\<in>set cached. k ''kid'' \<noteq> Some kid) \<and>
    endpoint (fetches m) = Body (Keys (map KeyObject refreshed))
      \<longrightarrow> fetches (snd (get_key_by_kid endpoint m now1 now2 kid)) = fetches m + 1 \<and>
          fst (get_key_by_kid endpoint m now1 now2 kid) = Inr (find_kid kid refreshed) \<and>
          (case find_kid kid refreshed of
             None \<Rightarrow> \<forall>k\<in>set refreshed. k ''kid'' \<noteq> Some kid
           | Some key \<Rightarrow> key \<in> set refreshed \<and> key ''kid'' = Some kid)) \<and>
   (fst (get_jwks endpoint m now1 False) = Inr (map KeyObject first) \<and>
    (\<forall>k\<in>set first. k ''kid'' \<noteq> Some kid) \<and>
    endpoint (fetches (snd (get_jwks endpoint m now1 False))) = Body (Keys (map KeyObject refreshed))
      \<longrightarrow> fst (get_key_by_kid endpoint m now1 now2 kid) = Inr (find_kid kid refreshed)) \<and>
   (fst (get_jwks endpoint m now1 False) = Inr members \<and>
    search_keys kid members = Inr None \<and>
    endpoint (fetches (snd (get_jwks endpoint m now1 False))) = Body (Keys members')
      \<longrightarrow> fst (get_key_by_kid endpoint m now1 now2 kid) = search_keys kid members')"
proof (intro conjI impI)
  obtain r1 m1 where g1: "get_jwks endpoint m now1 False = (r1, m1)"
    by (cases "get_jwks endpoint m now1 False")
  obtain r2 m2 where g2: "get_jwks endpoint m1 now2 True = (r2, m2)"
    by (cases "get_jwks endpoint m1 now2 True")
  from get_jwks_fetches [of endpoint m now1 False] g1 have f1: "fetches m1 \<le> fetches m + 1"
    by simp
  from get_jwks_fetches [of endpoint m1 now2 True] g2 have f2: "fetches m2 \<le> fetches m1 + 1"
    by simp
  from g1 g2 have "snd (get_key_by_kid endpoint m now1 now2 kid) = m1 \<or>
      snd (get_key_by_kid endpoint m now1 now2 kid) = m2"
    by (auto simp: get_key_by_kid_def split: sum.splits option.splits)
  with f1 f2 show "fetches (snd (get_key_by_kid endpoint m now1 now2 kid)) \<le> fetches m + 2"
    by auto
next
  assume a: "keys_cache m = Some (map KeyObject cached) \<and>
    now1 - cache_timestamp m < real_of_int (cache_ttl m) \<and>
    (\<forall>k\<in>set cached. k ''kid'' \<noteq> Some kid) \<and>
    endpoint (fetches m) = Body (Keys (map KeyObject refreshed))"
  then have c: "get_jwks endpoint m now1 False = (Inr (map KeyObject cached), m)"
    by (simp add: get_jwks_cached)
  from a have miss: "search_keys kid (map KeyObject cached) = Inr None"
    by (simp add: search_keys_objects find_kid_None)
  from a have r: "get_jwks endpoint m now2 True =
     (Inr (map KeyObject refreshed),
      m\<lparr>fetches := fetches m + 1, keys_cache := Some (map KeyObject refreshed),
        cache_timestamp := now2\<rparr>)"
    by (simp add: get_jwks_forced)
  from c miss r show "fetches (snd (get_key_by_kid endpoint m now1 now2 kid)) = fetches m + 1"
    by (simp add: get_key_by_kid_def)
  from c miss r show "fst (get_key_by_kid endpoint m now1 now2 kid) = Inr (find_kid kid refreshed)"
    by (simp add: get_key_by_kid_def search_keys_objects)
  show "case find_kid kid refreshed of
             None \<Rightarrow> \<forall>k\<in>set refreshed. k ''kid'' \<noteq> Some kid
           | Some key \<Rightarrow> key \<in> set refreshed \<and> key ''kid'' = Some kid"
    using find_kid_None [of kid refreshed] find_kid_Some [of kid refreshed]
    by (cases "find_kid kid refreshed") auto
next
  assume a: "fst (get_jwks endpoint m now1 False) = Inr (map KeyObject first) \<and>
    (\<forall>k\<in>set first. k ''kid'' \<noteq> Some kid) \<and>
    endpoint (fetches (snd (get_jwks endpoint m now1 False))) = Body (Keys (map KeyObject refreshed))"
  obtain m1 where g1: "get_jwks endpoint m now1 False = (Inr (map KeyObject first), m1)"
    using a by (cases "get_jwks endpoint m now1 False") auto
  from a have miss: "search_keys kid (map KeyObject first) = Inr None"
    by (simp add: search_keys_objects find_kid_None)
  from a g1 have "endpoint (fetches m1) = Body (Keys (map KeyObject refreshed))" by simp
  from get_jwks_forced [of endpoint m1 "map KeyObject refreshed" now2, OF this] g1 miss
  show "fst (get_key_by_kid endpoint m now1 now2 kid) = Inr (find_kid kid refreshed)"
    by (simp add: get_key_by_kid_def search_keys_objects)
next
  assume a: "fst (get_jwks endpoint m now1 False) = Inr members \<and>
    search_keys kid members = Inr None \<and>
    endpoint (fetches (snd (get_jwks endpoint m now1 False))) = Body (Keys members')"
  obtain m1 where g1: "get_jwks endpoint m now1 False = (Inr members, m1)"
    using a by (cases "get_jwks endpoint m now1 False") auto
  from a g1 have "endpoint (fetches m1) = Body (Keys members')" by simp
  from get_jwks_forced [of endpoint m1 members' now2, OF this] g1 a
  show "fst (get_key_by_kid endpoint m now1 now2 kid) = search_keys kid members'"
    by (simp add: get_key_by_kid_def)
qed

lemmas run_auth =
  get_key_by_kid_def get_jwks_def find_kid_def fresh_manager_def rotated_endpoint_def
  key1_def key2_def Let_def

theorem get_key_by_kid_one_forced_refresh_witness:
  "keys_cache fresh_manager = Some (map KeyObject [key1]) \<and>
   10 - cache_timestamp fresh_manager < real_of_int (cache_ttl fresh_manager) \<and>
   rotated_endpoint (fetches fresh_manager) = Body (Keys (map KeyObject [key1, key2])) \<and>
   fst (get_key_by_kid rotated_endpoint fresh_manager 10 11 ''k2'') = Inr (Some key2) \<and>
   fst (get_key_by_kid rotated_endpoint fresh_manager 10 11 ''k3'') = Inr None \<and>
   fetches (snd (get_key_by_kid rotated_endpoint fresh_manager 10 11 ''k3'')) = 2"
proof -
  have h: "keys_cache fresh_manager = Some (map KeyObject [key1]) \<and>
      10 - cache_timestamp fresh_manager < real_of_int (cache_ttl fresh_manager) \<and>
      rotated_endpoint (fetches fresh_manager) = Body (Keys (map KeyObject [key1, key2]))"
    by (simp add: fresh_manager_def rotated_endpoint_def)
  have k: "\<forall>k\<in>set [key1]. k ''kid'' \<noteq> Some ''k2''" "\<forall>k\<in>set [key1]. k ''kid'' \<noteq> Some ''k3''"
    by (simp_all add: key1_def)
  have f: "find_kid ''k2'' [key1, key2] = Some key2" "find_kid ''k3'' [key1, key2] = None"
    "fetches fresh_manager = 1"
    by (simp_all add: find_kid_def key1_def key2_def fresh_manager_def)
  from get_key_by_kid_one_forced_refresh
         [of rotated_endpoint fresh_manager 10 11 "''k2''" "[key1]" "[key1, key2]"]
       get_key_by_kid_one_forced_refresh
         [of rotated_endpoint fresh_manager 10 11 "''k3''" "[key1]" "[key1, key2]"]
       h k f
  show ?thesis by simp
qed

lemma toy_jose_checks: "decode_checks_algorithms toy_jose"
  by (auto simp: decode_checks_algorithms_def toy_jose_def token_alg_def split: option.splits)

lemma toy_hs_rejected:
  "fst (validate_token toy_jose rotated_endpoint fresh_manager 1000 1000 1000 ''hs.token'' None None) =
     Inl (JWTValidationError ValidationFailed)"
  by (simp add: validate_token_def toy_jose_def toy_header_def run_auth)

lemma toy_rs_accepted:
  "fst (validate_token toy_jose rotated_endpoint fresh_manager 1000 1000 1000 ''rs.token'' None None) =
     Inr toy_claims"
  by (simp add: validate_token_def toy_jose_def toy_header_def run_auth validate_payload_def
        toy_claims_def)

text \<open>
  What holds of every token whose algorithm is not on the allowlist. \<open>validate_token\<close>
  hands the library the allowlist \<open>RS256\<close>, \<open>ES256\<close> on the only path that returns
  claims. So, with a library whose \<open>decode\<close> honours its \<open>algorithms\<close> argument, a token
  whose header names any other algorithm (\<open>HS256\<close>, say), or none, is never accepted:
  whatever the cache holds, whatever the JWKS endpoint answers, whatever key is constructed
  from it and whatever tenant or scopes are required, no claims are returned. The rejection
  is a \<open>JWTValidationError\<close> whenever the cached key set and the two answers the endpoint
  may be asked for are well-formed: a failure, or a JSON object whose \<open>keys\<close> array, if
  it has one, holds objects only.
\<close>

lemma disallowed_algorithm_never_accepted:
  assumes "decode_checks_algorithms lib"
    and "token_alg lib token \<noteq> Some ''RS256''" and "token_alg lib token \<noteq> Some ''ES256''"
  shows "(\<forall>payload. fst (validate_token lib endpoint m now1 now2 now3 token rt rs) \<noteq> Inr payload) \<and>
         (well_formed_cache m \<and> well_formed (endpoint (fetches m)) \<and>
          well_formed (endpoint (fetches m + 1))
            \<longrightarrow> (\<exists>r. fst (validate_token lib endpoint m now1 now2 now3 token rt rs) =
                       Inl (JWTValidationError r)))"
proof -
  from assms(2,3) have "case token_alg lib token of None \<Rightarrow> True
      | Some a \<Rightarrow> a \<notin> set [''RS256'', ''ES256'']"
    by (cases "token_alg lib token") auto
  with assms(1) have d: "\<And>key. decode lib token key [''RS256'', ''ES256''] = Inl JWTError"
    unfolding decode_checks_algorithms_def by blast
  obtain r1 m1 where g: "get_key_by_kid endpoint m now1 now2 (the (the (get_unverified_header lib token) ''kid'')) = (r1, m1)"
    by (cases "get_key_by_kid endpoint m now1 now2 (the (the (get_unverified_header lib token) ''kid''))")
  have never: "\<forall>payload. fst (validate_token lib endpoint m now1 now2 now3 token rt rs) \<noteq> Inr payload"
    using d g
    by (auto simp: validate_token_def split: option.splits sum.splits prod.splits
          auth_error.splits)
  have served: "\<exists>r. fst (validate_token lib endpoint m now1 now2 now3 token rt rs) =
                       Inl (JWTValidationError r)"
    if w: "well_formed_cache m \<and> well_formed (endpoint (fetches m)) \<and>
          well_formed (endpoint (fetches m + 1))"
  proof -
    have e: "\<And>e. r1 = Inl e \<Longrightarrow> e = JWKSError"
      using get_key_by_kid_well_formed [of m endpoint now1 now2 _ _ m1] w g by auto
    show ?thesis
      using d g e
      by (auto simp: validate_token_def split: option.splits sum.splits prod.splits)
  qed
  from never served show ?thesis by blast
qed

lemma disallowed_algorithm_never_accepted_sample:
  "decode_checks_algorithms toy_jose \<and> token_alg toy_jose ''hs.token'' = Some ''HS256'' \<and>
   well_formed_cache fresh_manager \<and> well_formed (rotated_endpoint (fetches fresh_manager)) \<and>
   well_formed (rotated_endpoint (fetches fresh_manager + 1)) \<and>
   (\<exists>r. fst (validate_token toy_jose rotated_endpoint fresh_manager 1000 1000 1000
              ''hs.token'' None None) = Inl (JWTValidationError r)) \<and>
   (\<forall>payload. fst (validate_token toy_jose garbled_endpoint empty_manager 1000 1000 1000
              ''hs.token'' None None) \<noteq> Inr payload) \<and>
   fst (validate_token toy_jose rotated_endpoint fresh_manager 1000 1000 1000
          ''rs.token'' None None) = Inr toy_claims"
proof -
  have a: "token_alg toy_jose ''hs.token'' = Some ''HS256''"
    by (simp add: token_alg_def toy_jose_def toy_header_def)
  then have n: "token_alg toy_jose ''hs.token'' \<noteq> Some ''RS256''"
    "token_alg toy_jose ''hs.token'' \<noteq> Some ''ES256''" by simp_all
  have w: "well_formed_cache fresh_manager \<and> well_formed (rotated_endpoint (fetches fresh_manager)) \<and>
      well_formed (rotated_endpoint (fetches fresh_manager + 1))"
    by (simp add: well_formed_cache_def fresh_manager_def rotated_endpoint_def)
  from disallowed_algorithm_never_accepted
         [OF toy_jose_checks n, of rotated_endpoint fresh_manager 1000 1000 1000 None None]
       disallowed_algorithm_never_accepted
         [OF toy_jose_checks n, of garbled_endpoint empty_manager 1000 1000 1000 None None]
    toy_jose_checks a w toy_rs_accepted
  show ?thesis by blast
qed

text \<open>
  C3. A token whose algorithm is not \<open>RS256\<close> or \<open>ES256\<close> should be rejected with a
  validation error. A token signed with \<open>HS256\<close> and naming the key \<open>k1\<close>, presented
  while the cache is empty and the JWKS endpoint answers \<open>{"keys": ["x"]}\<close>: \<open>get_jwks\<close>,
  documented to raise \<open>JWKSError\<close> on a key set that is invalid, checks that \<open>keys\<close> is
  an array but not what the array holds, and caches and returns the document; the search
  for the key then calls \<open>get\<close> on the string, and the \<open>AttributeError\<close> passes every
  \<open>except\<close> clause of \<open>get_key_by_kid\<close> and \<open>validate_token\<close>. The token is refused,
  but not with \<open>JWTValidationError\<close>.
\<close>

theorem disallowed_algorithm_rejected_with_AttributeError:
  "token_alg toy_jose ''hs.token'' = Some ''HS256'' \<and>
   get_jwks garbled_endpoint empty_manager 1000 False =
     (Inr [NotAnObject],
      empty_manager\<lparr>fetches := 1, keys_cache := Some [NotAnObject], cache_timestamp := 1000\<rparr>) \<and>
   fst (validate_token toy_jose garbled_endpoint empty_manager 1000 1000 1000
          ''hs.token'' None None) = Inl PyAttributeError"
  by (simp add: token_alg_def validate_token_def toy_jose_def toy_header_def
        get_key_by_kid_def get_jwks_def empty_manager_def garbled_endpoint_def Let_def)


section \<open>Properties of the semantic scorer\<close>


lemma clip_range: "0 \<le> clip x \<and> clip x \<le> 1"
  by (cases x) auto

lemma self_cosine: "clip (np_divide (sum_list (map2 (*) e e)) (linalg_norm e * linalg_norm e)) = 1"
proof -
  let ?q = "sum_list (map (\<lambda>x. x * x) e)"
  have m: "sum_list (map2 (*) e e) = ?q"
    by (induction e) auto
  have "0 \<le> ?q" by (induction e) auto
  then have d: "linalg_norm e * linalg_norm e = ?q" by (simp add: linalg_norm_def)
  show ?thesis
    unfolding m d by (simp add: np_divide_def)
qed

text \<open>
  C9. The scorer is a total function into the reals, so nothing it does raises. For every
  pair of texts its value lies in [0,1]; when the two embeddings are there and have non-zero
  norms it is their cosine similarity clipped to [0,1]; a text scored against itself gives
  1; and whenever the scorer fails (no model, the encoder raises, embeddings missing or of
  different shapes) the value is exactly 0.5.
\<close>

theorem scorer_in_unit_interval:
  "0 \<le> calculate_semantic_similarity st text1 text2 \<and>
   calculate_semantic_similarity st text1 text2 \<le> 1 \<and>
   (st = Some encode \<and> encode [text1, text2] = Some (e0 # e1 # rest) \<and> length e0 = length e1 \<and>
    linalg_norm e0 * linalg_norm e1 \<noteq> 0
      \<longrightarrow> calculate_semantic_similarity st text1 text2 =
            max 0 (min 1 (sum_list (map2 (*) e0 e1) / (linalg_norm e0 * linalg_norm e1)))) \<and>
   (st = Some encode \<and> encode [text1, text1] = Some (e0 # e0 # rest)
      \<longrightarrow> calculate_semantic_similarity st text1 text1 = 1) \<and>
   (scoring_fails st text1 text2 \<longrightarrow> calculate_semantic_similarity st text1 text2 = 0.5)"
proof (intro conjI impI)
  show "0 \<le> calculate_semantic_similarity st text1 text2"
    using clip_range
    by (simp add: calculate_semantic_similarity_def split: option.splits list.splits)
  show "calculate_semantic_similarity st text1 text2 \<le> 1"
    using clip_range
    by (simp add: calculate_semantic_similarity_def split: option.splits list.splits)
next
  assume "st = Some encode \<and> encode [text1, text2] = Some (e0 # e1 # rest) \<and>
    length e0 = length e1 \<and> linalg_norm e0 * linalg_norm e1 \<noteq> 0"
  then show "calculate_semantic_similarity st text1 text2 =
      max 0 (min 1 (sum_list (map2 (*) e0 e1) / (linalg_norm e0 * linalg_norm e1)))"
    by (simp add: calculate_semantic_similarity_def np_dot_def np_divide_def)
next
  assume "st = Some encode \<and> encode [text1, text1] = Some (e0 # e0 # rest)"
  then show "calculate_semantic_similarity st text1 text1 = 1"
    using self_cosine [of e0]
    by (simp add: calculate_semantic_similarity_def np_dot_def)
next
  assume "scoring_fails st text1 text2"
  then show "calculate_semantic_similarity st text1 text2 = 0.5"
    by (auto simp: calculate_semantic_similarity_def scoring_fails_def np_dot_def
          split: option.splits list.splits)
qed

lemma toy_scores:
  "calculate_semantic_similarity (Some toy_encoder) ''east'' ''west'' = 0"
  "calculate_semantic_similarity (Some toy_encoder) ''east'' ''north'' = 24 / 25"
  by (simp_all add: calculate_semantic_similarity_def toy_encoder_def toy_embedding_def
        np_dot_def np_divide_def linalg_norm_def)

theorem scorer_in_unit_interval_witness:
  "toy_encoder [''east'', ''north''] = Some ([3, 4] # [4, 3] # []) \<and>
   linalg_norm [3, 4] * linalg_norm [4, 3] = 25 \<and>
   calculate_semantic_similarity (Some toy_encoder) ''east'' ''north'' = 24 / 25 \<and>
   calculate_semantic_similarity (Some toy_encoder) ''east'' ''east'' = 1 \<and>
   scoring_fails (Some broken_encoder) ''east'' ''north'' \<and>
   calculate_semantic_similarity (Some broken_encoder) ''east'' ''north'' = 0.5 \<and>
   scoring_fails None ''east'' ''north'' \<and>
   calculate_semantic_similarity None ''east'' ''north'' = 0.5"
proof -
  have e: "toy_encoder [''east'', ''north''] = Some ([3, 4] # [4, 3] # [])"
    "toy_encoder [''east'', ''east''] = Some ([3, 4] # [3, 4] # [])"
    by (simp_all add: toy_encoder_def toy_embedding_def)
  have n: "linalg_norm [3, 4] * linalg_norm [4, 3] = 25"
    by (simp add: linalg_norm_def)
  have f: "scoring_fails (Some broken_encoder) ''east'' ''north''" "scoring_fails None ''east'' ''north''"
    by (simp_all add: scoring_fails_def broken_encoder_def)
  from scorer_in_unit_interval [of "Some toy_encoder" "''east''" "''north''" toy_encoder "[3, 4]" "[4, 3]" "[]"]
    scorer_in_unit_interval [of "Some toy_encoder" "''east''" "''east''" toy_encoder "[3, 4]" "[3, 4]" "[]"]
    scorer_in_unit_interval [of "Some broken_encoder" "''east''" "''north''"]
    scorer_in_unit_interval [of None "''east''" "''north''"]
    e n f
  show ?thesis by simp
qed

end
